theory Spec2Isabelle
  imports Complex_Main
begin

section \<open>Python values\<close>

text \<open>
  A Python \<^verbatim>\<open>str\<close> is a sequence of Unicode code points, modelled as a list of
  natural numbers; \<open>asc\<close> writes an ASCII literal. Python floats are modelled as real
  numbers: every comparison and arithmetic operation below is the exact one, and the
  float values \<^verbatim>\<open>inf\<close> and \<^verbatim>\<open>nan\<close> are outside the model. Every
  \<^verbatim>\<open>raise\<close> of the source is a value \<open>Inl e\<close> of a sum type.
\<close>

type_synonym pystr = "nat list"

definition asc :: "string \<Rightarrow> pystr" where
  "asc s = map of_char s"

datatype py_error =
  ValueError string | ZeroDivisionError | TypeError | KeyError | AttributeError
  | RuntimeError | OSError

text \<open>
  A Python \<^verbatim>\<open>dict\<close> keeps its keys in insertion order, and the code below iterates
  over dictionaries, so a dictionary is an association list with distinct keys:
  \<open>dict_get\<close> is the lookup, \<open>dict_set d k v\<close> is \<^verbatim>\<open>d[k] = v\<close> (overwrite in
  place, or append a new key at the end).
\<close>

type_synonym 'v pydict = "(pystr \<times> 'v) list"

fun dict_get :: "'v pydict \<Rightarrow> pystr \<Rightarrow> 'v option" where
  "dict_get [] k = None"
| "dict_get ((k', v) # d) k = (if k' = k then Some v else dict_get d k)"

fun dict_set :: "'v pydict \<Rightarrow> pystr \<Rightarrow> 'v \<Rightarrow> 'v pydict" where
  "dict_set [] k v = [(k, v)]"
| "dict_set ((k', v') # d) k v =
     (if k' = k then (k, v) # d else (k', v') # dict_set d k v)"

section \<open>Domain enumerations and entities\<close>

text \<open>The enumerations of \<^verbatim>\<open>domain/enums.py\<close>, with the string value of each member.\<close>

datatype ExpenseCategory =
  FOOD | TRANSPORT | UTILITIES | ENTERTAINMENT | HEALTH | EDUCATION | SHOPPING | HOUSING
  | PERSONAL | OTHER

datatype BudgetStatus = HEALTHY | WARNING | OVER_BUDGET | UNKNOWN

datatype ActionPriority = LOW | MEDIUM | HIGH | URGENT

fun category_value :: "ExpenseCategory \<Rightarrow> pystr" where
  "category_value FOOD = asc ''FOOD''"
| "category_value TRANSPORT = asc ''TRANSPORT''"
| "category_value UTILITIES = asc ''UTILITIES''"
| "category_value ENTERTAINMENT = asc ''ENTERTAINMENT''"
| "category_value HEALTH = asc ''HEALTH''"
| "category_value EDUCATION = asc ''EDUCATION''"
| "category_value SHOPPING = asc ''SHOPPING''"
| "category_value HOUSING = asc ''HOUSING''"
| "category_value PERSONAL = asc ''PERSONAL''"
| "category_value OTHER = asc ''OTHER''"

definition all_categories :: "ExpenseCategory list" where
  "all_categories =
     [FOOD, TRANSPORT, UTILITIES, ENTERTAINMENT, HEALTH, EDUCATION, SHOPPING, HOUSING,
      PERSONAL, OTHER]"

text \<open>
  \<^verbatim>\<open>ExpenseCategory(s)\<close>: the member whose value is \<open>s\<close>; \<open>None\<close> stands for the
  \<^verbatim>\<open>ValueError\<close> the enum constructor raises on any other string.
\<close>

definition category_of_value :: "pystr \<Rightarrow> ExpenseCategory option" where
  "category_of_value s = find (\<lambda>c. category_value c = s) all_categories"

text \<open>\<^verbatim>\<open>BudgetStatus.from_percentage\<close>: an if/elif chain, kept in the source's order.\<close>

definition from_percentage :: "real \<Rightarrow> BudgetStatus" where
  "from_percentage percentage =
     (if percentage < 0 then UNKNOWN
      else if percentage < 80 then HEALTHY
      else if percentage \<le> 100 then WARNING
      else OVER_BUDGET)"

text \<open>
  The dataclasses of \<^verbatim>\<open>domain/models.py\<close>. The generated identifiers and
  timestamps are left out: no modelled code reads them. A search result is the
  dictionary with the keys title, link and snippet that the search tool builds.
\<close>

record search_result =
  title :: pystr
  link :: pystr
  snippet :: pystr

datatype meta_value = MetaResults "search_result list" | MetaBool bool | MetaText pystr

record Expense =
  description :: pystr
  amount :: real
  category :: ExpenseCategory
  metadata :: "meta_value pydict"

text \<open>
  A trend of the analysis is kept as the triple (category, amount, percentage) that the
  source renders into one line of text.
\<close>

record Analysis =
  total_expenses :: real
  daily_rate :: real
  monthly_projection :: real
  days_analyzed :: int
  category_breakdown :: "real pydict"
  budget_status :: BudgetStatus
  income :: "real option"
  remaining_budget :: "real option"
  usage_percentage :: "real option"
  trends :: "(ExpenseCategory \<times> real \<times> real) list"

section \<open>The sandboxed aggregation and the analyst\<close>

text \<open>
  \<^verbatim>\<open>AnalystAgent._calculate_breakdown_with_code\<close> writes a script around the list
  of (category value, amount) pairs and the total, and hands it to
  \<^verbatim>\<open>CodeExecutor.execute\<close>. The script's first loop is \<open>script_totals\<close>. Its
  second loop divides every total by \<^verbatim>\<open>total\<close> and stores rounded amounts into a
  dictionary that the last statement \<^verbatim>\<open>result = category_totals\<close> discards; what is
  left of that loop is the \<^verbatim>\<open>ZeroDivisionError\<close> of its division, \<open>script_percentages\<close>.
\<close>

definition expense_data :: "Expense list \<Rightarrow> (pystr \<times> real) list" where
  "expense_data expenses = map (\<lambda>e. (category_value (category e), amount e)) expenses"

fun script_totals :: "real pydict \<Rightarrow> (pystr \<times> real) list \<Rightarrow> real pydict" where
  "script_totals category_totals [] = category_totals"
| "script_totals category_totals ((cat, amt) # rest) =
     (case dict_get category_totals cat of
        Some v \<Rightarrow> script_totals (dict_set category_totals cat (v + amt)) rest
      | None \<Rightarrow> script_totals (dict_set category_totals cat amt) rest)"

fun script_percentages :: "real pydict \<Rightarrow> real \<Rightarrow> py_error + unit" where
  "script_percentages [] tot = Inr ()"
| "script_percentages ((cat, amt) # rest) tot =
     (if tot = 0 then Inl ZeroDivisionError else script_percentages rest tot)"

definition run_script :: "(pystr \<times> real) list \<Rightarrow> real \<Rightarrow> py_error + real pydict" where
  "run_script expenses tot =
     (let category_totals = script_totals [] expenses in
      case script_percentages category_totals tot of
        Inl e \<Rightarrow> Inl e
      | Inr _ \<Rightarrow> Inr category_totals)"

text \<open>
  \<^verbatim>\<open>CodeExecutor.execute\<close> runs the script in a thread under a timeout, after
  \<^verbatim>\<open>compile_restricted\<close>. What the environment decides is a parameter: the run
  times out, the restricted compiler or its guards refuse the script, or the script runs.
  Every exception, the script's own included, becomes a failed result.
\<close>

datatype sandbox = TimesOut | Refuses | Runs

datatype exec_result = Success "real pydict" | Failure

definition execute_script :: "sandbox \<Rightarrow> (pystr \<times> real) list \<Rightarrow> real \<Rightarrow> exec_result" where
  "execute_script env expenses tot =
     (case env of
        TimesOut \<Rightarrow> Failure
      | Refuses \<Rightarrow> Failure
      | Runs \<Rightarrow> (case run_script expenses tot of Inl e \<Rightarrow> Failure | Inr out \<Rightarrow> Success out))"

text \<open>The in-process loop: \<^verbatim>\<open>category_totals[cat] = category_totals.get(cat, 0) + e.amount\<close>.\<close>

fun fallback_totals :: "real pydict \<Rightarrow> Expense list \<Rightarrow> real pydict" where
  "fallback_totals category_totals [] = category_totals"
| "fallback_totals category_totals (e # rest) =
     (let cat = category_value (category e) in
      fallback_totals
        (dict_set category_totals cat
           ((case dict_get category_totals cat of None \<Rightarrow> 0 | Some v \<Rightarrow> v) + amount e))
        rest)"

definition calculate_breakdown_with_code ::
    "sandbox \<Rightarrow> Expense list \<Rightarrow> real \<Rightarrow> real pydict" where
  "calculate_breakdown_with_code env expenses tot =
     (case execute_script env (expense_data expenses) tot of
        Success out \<Rightarrow> out
      | Failure \<Rightarrow> fallback_totals [] expenses)"

text \<open>
  The trend loop of \<^verbatim>\<open>AnalystAgent.execute\<close>: it divides by the total for every
  entry of the breakdown, outside any \<^verbatim>\<open>try\<close>; an entry whose key is not a category
  value is skipped.
\<close>

fun trend_loop ::
    "real pydict \<Rightarrow> real \<Rightarrow> py_error + (ExpenseCategory \<times> real \<times> real) list" where
  "trend_loop [] tot = Inr []"
| "trend_loop ((cat, amt) # rest) tot =
     (if tot = 0 then Inl ZeroDivisionError
      else
        let pct = (amt / tot) * 100 in
        case trend_loop rest tot of
          Inl e \<Rightarrow> Inl e
        | Inr ts \<Rightarrow>
            if pct \<ge> 30 then
              (case category_of_value cat of
                 Some cat_enum \<Rightarrow> Inr ((cat_enum, amt, pct) # ts)
               | None \<Rightarrow> Inr ts)
            else Inr ts)"

text \<open>
  \<^verbatim>\<open>AnalystAgent.execute\<close>. The test \<^verbatim>\<open>if income:\<close> is false for a missing
  income and for an income of zero. \<open>enable_code_executor\<close> is the agent's flag.
\<close>

definition analyst_execute ::
    "bool \<Rightarrow> sandbox \<Rightarrow> Expense list \<Rightarrow> int \<Rightarrow> real option \<Rightarrow> py_error + Analysis" where
  "analyst_execute enable_code_executor env expenses days inc =
     (if expenses = [] then Inl (ValueError ''Cannot analyze empty expenses'')
      else
        let tot = sum_list (map amount expenses) in
        if days = 0 then Inl ZeroDivisionError
        else
          let daily = tot / real_of_int days;
              monthly = daily * 30;
              breakdown =
                (if enable_code_executor then calculate_breakdown_with_code env expenses tot
                 else fallback_totals [] expenses);
              (usage_pct, status, remaining) =
                (case inc of
                   None \<Rightarrow> (None, UNKNOWN, None)
                 | Some i \<Rightarrow>
                     if i \<noteq> 0 then
                       (Some ((monthly / i) * 100),
                        from_percentage ((monthly / i) * 100),
                        Some (if i > monthly then i - monthly else 0))
                     else (None, UNKNOWN, None))
          in
          case trend_loop breakdown tot of
            Inl e \<Rightarrow> Inl e
          | Inr ts \<Rightarrow>
              Inr \<lparr>total_expenses = tot, daily_rate = daily, monthly_projection = monthly,
                   days_analyzed = days, category_breakdown = breakdown,
                   budget_status = status, income = inc, remaining_budget = remaining,
                   usage_percentage = usage_pct, trends = ts\<rparr>)"


text \<open>The expenses of the test fixture \<^verbatim>\<open>sample_expenses\<close>, and two single expenses.\<close>

definition sample_expenses :: "Expense list" where
  "sample_expenses =
     [\<lparr>description = asc ''kahve 50 TL'', amount = 50, category = FOOD, metadata = []\<rparr>,
      \<lparr>description = asc ''uber 120 TL'', amount = 120, category = TRANSPORT, metadata = []\<rparr>,
      \<lparr>description = asc ''laptop 8000 TL'', amount = 8000, category = SHOPPING,
        metadata = []\<rparr>,
      \<lparr>description = asc ''market 300 TL'', amount = 300, category = FOOD, metadata = []\<rparr>]"

definition kahve :: Expense where
  "kahve = \<lparr>description = asc ''kahve'', amount = 50, category = FOOD, metadata = []\<rparr>"

definition unpriced_laptop :: Expense where
  "unpriced_laptop =
     \<lparr>description = asc ''laptop'', amount = 0, category = OTHER, metadata = []\<rparr>"

section \<open>The strategist's action items\<close>

text \<open>
  \<^verbatim>\<open>needle in haystack\<close> on strings is the substring test.
\<close>

fun starts_with :: "pystr \<Rightarrow> pystr \<Rightarrow> bool" where
  "starts_with t [] = True"
| "starts_with [] (p # ps) = False"
| "starts_with (c # t) (p # ps) = (c = p \<and> starts_with t ps)"

fun py_in :: "pystr \<Rightarrow> pystr \<Rightarrow> bool" where
  "py_in s [] = (s = [])"
| "py_in s (c # t) = (starts_with (c # t) s \<or> py_in s t)"

text \<open>
  An action item; its impact text, a rendering of the numbers the item already carries,
  is left out, except for the one division that the rendering performs (see
  \<open>status_actions\<close>). \<open>item_description\<close> is the field \<^verbatim>\<open>description\<close>.
\<close>

record ActionItem =
  item_description :: pystr
  priority :: ActionPriority
  potential_savings :: real


text \<open>
  \<^verbatim>\<open>sorted(items, key=lambda x: x[1], reverse=True)\<close>: a stable sort, larger amounts
  first, entries with equal amounts in their original order. A stable sort has one
  result, written here as an insertion sort.
\<close>

fun insert_desc :: "pystr \<times> real \<Rightarrow> real pydict \<Rightarrow> real pydict" where
  "insert_desc x [] = [x]"
| "insert_desc x (y # ys) = (if snd x \<ge> snd y then x # y # ys else y # insert_desc x ys)"

definition sorted_desc :: "real pydict \<Rightarrow> real pydict" where
  "sorted_desc items = foldr insert_desc items []"

definition top_categories :: "Analysis \<Rightarrow> real pydict" where
  "top_categories analysis =
     (if category_breakdown analysis \<noteq> [] then take 2 (sorted_desc (category_breakdown analysis))
      else [])"

definition monthly_reduction :: "Analysis \<Rightarrow> real" where
  "monthly_reduction analysis =
     (if monthly_projection analysis \<noteq> 0 then monthly_projection analysis * (1 / 10) else 0)"

text \<open>
  \<^verbatim>\<open>amount * rate * 30 / analysis.days_analyzed\<close>, with the
  \<^verbatim>\<open>ZeroDivisionError\<close> of a zero day count.
\<close>

definition scaled_savings :: "real \<Rightarrow> real \<Rightarrow> int \<Rightarrow> py_error + real" where
  "scaled_savings amt rate days =
     (if days = 0 then Inl ZeroDivisionError else Inr (amt * rate * 30 / real_of_int days))"

text \<open>
  The if/elif/else over the status of \<^verbatim>\<open>StrategistAgent._generate_actions\<close>. The
  last branch is an \<^verbatim>\<open>else\<close>: it takes every status that is neither HEALTHY nor
  WARNING. The impact text of its first item holds
  \<^verbatim>\<open>top_cat[1]/analysis.total_expenses*100\<close>, evaluated before the savings: a
  total of zero raises \<^verbatim>\<open>ZeroDivisionError\<close> there.
\<close>

definition status_actions :: "Analysis \<Rightarrow> py_error + ActionItem list" where
  "status_actions analysis =
     (let top = top_categories analysis in
      if budget_status analysis = HEALTHY then
        Inr [\<lparr>item_description = asc ''Track your weekly expenses'', priority = LOW,
               potential_savings = 0\<rparr>,
             \<lparr>item_description = asc ''Set a savings goal'', priority = LOW,
               potential_savings = monthly_reduction analysis * 2\<rparr>]
      else if budget_status analysis = WARNING then
        (case top of
           [] \<Rightarrow>
             Inr [\<lparr>item_description = asc ''Cancel unnecessary subscriptions'',
                    priority = MEDIUM, potential_savings = monthly_reduction analysis\<rparr>]
         | top_cat # _ \<Rightarrow>
             (case scaled_savings (snd top_cat) (15 / 100) (days_analyzed analysis) of
                Inl e \<Rightarrow> Inl e
              | Inr s \<Rightarrow>
                  Inr [\<lparr>item_description =
                           asc ''Reduce '' @ fst top_cat @ asc '' spending by 15%'',
                         priority = MEDIUM, potential_savings = s\<rparr>,
                       \<lparr>item_description = asc ''Cancel unnecessary subscriptions'',
                         priority = MEDIUM,
                         potential_savings = monthly_reduction analysis\<rparr>]))
      else
        (let urgent =
               \<lparr>item_description = asc ''Stop all non-essential spending immediately'',
                 priority = URGENT, potential_savings = monthly_reduction analysis * 2\<rparr>
         in
         case top of
           [] \<Rightarrow> Inr [urgent]
         | top_cat # others \<Rightarrow>
             (case (if total_expenses analysis = 0 then Inl ZeroDivisionError
                    else scaled_savings (snd top_cat) (30 / 100) (days_analyzed analysis)) of
                Inl e \<Rightarrow> Inl e
              | Inr s1 \<Rightarrow>
                  (let first =
                         \<lparr>item_description =
                            asc ''URGENT: Cut '' @ fst top_cat @ asc '' spending by 30%'',
                          priority = HIGH, potential_savings = s1\<rparr>
                   in
                   case others of
                     [] \<Rightarrow> Inr [first, urgent]
                   | second_cat # _ \<Rightarrow>
                       (case scaled_savings (snd second_cat) (20 / 100)
                               (days_analyzed analysis) of
                          Inl e \<Rightarrow> Inl e
                        | Inr s2 \<Rightarrow>
                            Inr [first,
                                 \<lparr>item_description =
                                    asc ''Reduce '' @ fst second_cat
                                      @ asc '' spending by 20%'',
                                  priority = HIGH, potential_savings = s2\<rparr>,
                                 urgent])))))"

text \<open>
  The loop over the breakdown that follows: the first category above 40 percent that no
  action description mentions gets one more item, and the loop stops.
\<close>

fun extra_action ::
    "Analysis \<Rightarrow> ActionItem list \<Rightarrow> real pydict \<Rightarrow> py_error + ActionItem list" where
  "extra_action analysis actions [] = Inr actions"
| "extra_action analysis actions ((cat, amt) # rest) =
     (let pct = (if total_expenses analysis > 0 then amt / total_expenses analysis * 100
                 else 0)
      in
      if pct > 40 \<and> \<not> list_ex (\<lambda>a. py_in cat (item_description a)) actions then
        (case scaled_savings amt (15 / 100) (days_analyzed analysis) of
           Inl e \<Rightarrow> Inl e
         | Inr category_savings \<Rightarrow>
             Inr (actions @
                  [\<lparr>item_description =
                       asc ''Create savings plan for '' @ cat @ asc '' category'',
                     priority = MEDIUM, potential_savings = category_savings\<rparr>]))
      else extra_action analysis actions rest)"

definition generate_actions :: "Analysis \<Rightarrow> py_error + ActionItem list" where
  "generate_actions analysis =
     (case status_actions analysis of
        Inl e \<Rightarrow> Inl e
      | Inr actions \<Rightarrow> extra_action analysis actions (category_breakdown analysis))"


text \<open>
  The action items as the specification words them, for an analysis with at least one
  category. Categories are ranked by amount, larger first (the library's stable sort on
  the negated amount); \<open>claimed_status_items\<close> is the table by status and
  \<open>claimed_extra_items\<close> the rule for a category above 40 percent of the total. The
  specification names no item for the status UNKNOWN.
\<close>

definition ranked_categories :: "Analysis \<Rightarrow> real pydict" where
  "ranked_categories a = sort_key (\<lambda>p. - snd p) (category_breakdown a)"

definition claimed_status_items :: "Analysis \<Rightarrow> ActionItem list" where
  "claimed_status_items a =
     (let top2 = take 2 (ranked_categories a);
          baseline = monthly_projection a * (10 / 100);
          per_month = (\<lambda>x. x * 30 / real_of_int (days_analyzed a))
      in
      case budget_status a of
        HEALTHY \<Rightarrow>
          [\<lparr>item_description = asc ''Track your weekly expenses'', priority = LOW,
             potential_savings = 0\<rparr>,
           \<lparr>item_description = asc ''Set a savings goal'', priority = LOW,
             potential_savings = 2 * baseline\<rparr>]
      | WARNING \<Rightarrow>
          [\<lparr>item_description = asc ''Reduce '' @ fst (hd top2) @ asc '' spending by 15%'',
             priority = MEDIUM, potential_savings = per_month (snd (hd top2) * (15 / 100))\<rparr>,
           \<lparr>item_description = asc ''Cancel unnecessary subscriptions'', priority = MEDIUM,
             potential_savings = baseline\<rparr>]
      | OVER_BUDGET \<Rightarrow>
          [\<lparr>item_description = asc ''URGENT: Cut '' @ fst (hd top2) @ asc '' spending by 30%'',
             priority = HIGH, potential_savings = per_month (snd (hd top2) * (30 / 100))\<rparr>]
          @ (if length top2 = 2 then
               [\<lparr>item_description =
                    asc ''Reduce '' @ fst (top2 ! 1) @ asc '' spending by 20%'',
                  priority = HIGH,
                  potential_savings = per_month (snd (top2 ! 1) * (20 / 100))\<rparr>]
             else [])
          @ [\<lparr>item_description = asc ''Stop all non-essential spending immediately'',
               priority = URGENT, potential_savings = 2 * baseline\<rparr>]
      | UNKNOWN \<Rightarrow> [])"

definition claimed_extra_items :: "Analysis \<Rightarrow> ActionItem list \<Rightarrow> ActionItem list" where
  "claimed_extra_items a existing =
     (case find (\<lambda>(cat, amt). amt > (40 / 100) * total_expenses a
                    \<and> list_all (\<lambda>item. \<not> py_in cat (item_description item)) existing)
             (category_breakdown a) of
        None \<Rightarrow> []
      | Some (cat, amt) \<Rightarrow>
          [\<lparr>item_description = asc ''Create savings plan for '' @ cat @ asc '' category'',
             priority = MEDIUM,
             potential_savings = amt * (15 / 100) * 30 / real_of_int (days_analyzed a)\<rparr>])"

text \<open>
  What holds of every analysis the analyst builds from amounts that are not negative: at
  least one day, at least one category, and a total above zero.
\<close>

definition analysis_invariant :: "Analysis \<Rightarrow> bool" where
  "analysis_invariant a =
     (1 \<le> days_analyzed a \<and> category_breakdown a \<noteq> [] \<and> 0 < total_expenses a)"

text \<open>
  Two analyses: one with status WARNING and two categories at 45 percent each, and
  the one the analyst builds from the fixture's expenses when no income is given.
\<close>

definition warning_analysis :: Analysis where
  "warning_analysis =
     \<lparr>total_expenses = 1000, daily_rate = 100, monthly_projection = 3000,
      days_analyzed = 10,
      category_breakdown = [(asc ''FOOD'', 450), (asc ''SHOPPING'', 450), (asc ''OTHER'', 100)],
      budget_status = WARNING, income = Some 3500, remaining_budget = Some 500,
      usage_percentage = Some (600 / 7), trends = []\<rparr>"


section \<open>The searcher\<close>

text \<open>
  The search tool is a collaborator: \<open>search k product\<close> is what its
  \<^verbatim>\<open>search_product_price\<close> answers on the \<open>k\<close>-th call of one run, an exception
  or a list of results. \<^verbatim>\<open>SearcherAgent.execute\<close> selects the expenses to search,
  returns its argument when there is none, and otherwise updates the metadata of the
  selected expenses in place, one search each, in list order. The expenses of the list
  are taken to be distinct objects.
\<close>

datatype search_outcome = SearchFails | SearchReturns "search_result list"

definition searchable :: "real \<Rightarrow> Expense \<Rightarrow> bool" where
  "searchable threshold e = (amount e \<ge> threshold \<or> amount e = 0)"

definition attach_results :: "search_outcome \<Rightarrow> Expense \<Rightarrow> Expense" where
  "attach_results outcome expense =
     (case outcome of
        SearchFails \<Rightarrow> expense
      | SearchReturns results \<Rightarrow>
          if results \<noteq> [] then
            expense\<lparr>metadata :=
              dict_set
                (dict_set (metadata expense) (asc ''search_results'')
                   (MetaResults (take 3 results)))
                (asc ''searched'') (MetaBool True)\<rparr>
          else expense)"

fun search_loop ::
    "(nat \<Rightarrow> pystr \<Rightarrow> search_outcome) \<Rightarrow> real \<Rightarrow> nat \<Rightarrow> Expense list \<Rightarrow> Expense list" where
  "search_loop search threshold k [] = []"
| "search_loop search threshold k (e # rest) =
     (if searchable threshold e then
        attach_results (search k (description e)) e # search_loop search threshold (Suc k) rest
      else e # search_loop search threshold k rest)"

definition searcher_execute ::
    "(nat \<Rightarrow> pystr \<Rightarrow> search_outcome) \<Rightarrow> real \<Rightarrow> Expense list \<Rightarrow> Expense list" where
  "searcher_execute search threshold expenses =
     (if filter (searchable threshold) expenses = [] then expenses
      else search_loop search threshold 0 expenses)"

text \<open>An expense above the default threshold, and a family of search results.\<close>

definition monitor :: Expense where
  "monitor = \<lparr>description = asc ''monitor'', amount = 150, category = SHOPPING, metadata = []\<rparr>"

definition offer :: "nat \<Rightarrow> search_result" where
  "offer k = \<lparr>title = asc ''offer'', link = asc ''http://example.com'', snippet = [48 + k]\<rparr>"

section \<open>Strings: white space, digits and letter case\<close>

text \<open>
  \<open>is_space\<close> is the white space of \<^verbatim>\<open>str.strip()\<close> and of \<^verbatim>\<open>\s\<close> in a
  pattern on \<^verbatim>\<open>str\<close>. \<open>is_digit\<close> stands for \<^verbatim>\<open>\d\<close>: it holds for the ten
  ASCII digits; the decimal digits of other scripts, which \<^verbatim>\<open>\d\<close> accepts as well,
  are outside the model.
\<close>

definition is_space :: "nat \<Rightarrow> bool" where
  "is_space c =
     ((9 \<le> c \<and> c \<le> 13) \<or> (28 \<le> c \<and> c \<le> 32) \<or> c = 133 \<or> c = 160 \<or> c = 5760 \<or>
      (8192 \<le> c \<and> c \<le> 8202) \<or> c = 8232 \<or> c = 8233 \<or> c = 8239 \<or> c = 8287 \<or>
      c = 12288)"

definition is_digit :: "nat \<Rightarrow> bool" where
  "is_digit c = (48 \<le> c \<and> c \<le> 57)"

definition strip :: "pystr \<Rightarrow> pystr" where
  "strip s = rev (dropWhile is_space (rev (dropWhile is_space s)))"

text \<open>
  \<^verbatim>\<open>str.lower()\<close> and \<^verbatim>\<open>str.upper()\<close>, one code point at a time, for the
  code points up to U+00FF and for the few beyond them whose other case is an ASCII
  letter or occurs in the keyword table (U+0130, U+0131, U+0178, U+017F, U+212A,
  U+212B); every other code point is left as it is.
\<close>

definition lower_cp :: "nat \<Rightarrow> pystr" where
  "lower_cp c =
     (if 65 \<le> c \<and> c \<le> 90 then [c + 32]
      else if 192 \<le> c \<and> c \<le> 222 \<and> c \<noteq> 215 then [c + 32]
      else if c = 304 then [105, 775]
      else if c = 376 then [255]
      else if c = 8490 then [107]
      else if c = 8491 then [229]
      else [c])"

definition lower :: "pystr \<Rightarrow> pystr" where
  "lower s = concat (map lower_cp s)"

definition upper_cp :: "nat \<Rightarrow> pystr" where
  "upper_cp c =
     (if 97 \<le> c \<and> c \<le> 122 then [c - 32]
      else if c = 181 then [924]
      else if c = 223 then [83, 83]
      else if 224 \<le> c \<and> c \<le> 254 \<and> c \<noteq> 247 then [c - 32]
      else if c = 255 then [376]
      else if c = 305 then [73]
      else if c = 383 then [83]
      else [c])"

definition upper :: "pystr \<Rightarrow> pystr" where
  "upper s = concat (map upper_cp s)"

section \<open>The classifier\<close>

text \<open>
  \<^verbatim>\<open>ExpenseCategory.from_keywords\<close>: the text is lower-cased, the keyword table is
  walked in its order of declaration, and the first category with a keyword that occurs
  in the lower-cased text is returned. The keywords are the string literals of the source
  file, code point by code point.
\<close>

definition keywords_map :: "(ExpenseCategory \<times> pystr list) list" where
  "keywords_map =
     [(FOOD,
       [asc ''market'', asc ''yemek'', asc ''ekmek'', asc ''g'' @ [196, 177] @ asc ''da'',
        asc ''restaurant'', asc ''kafe'', asc ''kahve'', asc ''starbucks'', asc ''migros'',
        asc ''carrefour'', asc ''a101'', asc ''pizza'', asc ''dominos'']),
      (TRANSPORT,
       [asc ''benzin'', asc ''yak'' @ [196, 177] @ asc ''t'',
        asc ''otob'' @ [195, 188] @ asc ''s'', asc ''metro'', asc ''taksi'', asc ''uber'',
        asc ''ara'' @ [195, 167], asc ''u'' @ [195, 167] @ asc ''ak'', asc ''bilet'',
        asc ''pegasus'', asc ''thy'', asc ''transfer'']),
      (UTILITIES,
       [asc ''elektrik'', asc ''su'', asc ''gaz'', asc ''internet'', asc ''telefon'',
        asc ''fatura'', asc ''do'' @ [196, 376] @ asc ''algaz'']),
      (ENTERTAINMENT,
       [asc ''sinema'', asc ''film'', asc ''konser'', asc ''tiyatro'', asc ''oyun'',
        asc ''netflix'', asc ''spotify'', asc ''abonel'', asc ''disney'']),
      (HEALTH,
       [asc ''doktor'', asc ''hastane'', asc ''eczane'', asc ''ila'' @ [195, 167],
        asc ''sa'' @ [196, 376] @ asc ''l'' @ [196, 177] @ asc ''k'']),
      (EDUCATION,
       [asc ''kitap'', asc ''kurs'', asc ''e'' @ [196, 376] @ asc ''itim'', asc ''okul'',
        asc ''ders'', asc ''udemy'', asc ''coursera'']),
      (SHOPPING,
       [asc ''giyim'', asc ''k'' @ [196, 177] @ asc ''yafet'',
        asc ''ayakkab'' @ [196, 177],
        asc ''al'' @ [196, 177, 197, 376] @ asc ''veri'' @ [197, 376], asc ''laptop'',
        asc ''bilgisayar'', asc ''telefon'', asc ''mouse'', asc ''klavye'',
        asc ''monit'' @ [195, 182] @ asc ''r'', asc ''kamera'',
        asc ''kulakl'' @ [196, 177] @ asc ''k'', asc ''macbook'', asc ''iphone'',
        asc ''samsung'', asc ''apple'', asc ''logitech'', asc ''asus'', asc ''msi'',
        asc ''lenovo'', asc ''dell'', asc ''hp'', asc ''razer'', asc ''keychron'',
        asc ''anker'', asc ''teknosa'', asc ''vatan'', asc ''mediamarkt'',
        asc ''hepsiburada'', asc ''trendyol'', asc ''amazon'', asc ''n11'',
        asc ''gittigidiyor'', asc ''usb'', asc ''disk'', asc ''hard'', asc ''ssd'',
        asc ''ram'', asc ''ekran'', asc ''tablet'', asc ''ipad'', asc ''airpods'',
        [195, 167] @ asc ''anta'',
        asc ''k'' @ [196, 177] @ asc ''l'' @ [196, 177] @ asc ''f'', asc ''aksesuar'',
        asc ''hub'', asc ''adapter'', asc ''kablo'', [197, 376] @ asc ''arj'',
        asc ''powerbank'', asc ''trackpad'', asc ''webcam'', asc ''mikrofon'']),
      (HOUSING,
       [asc ''kira'', asc ''rent'', asc ''ev'', asc ''mobilya'', asc ''otel'',
        asc ''konaklama'', asc ''hilton'', asc ''hertz'', asc ''kiralama'']),
      (PERSONAL,
       [asc ''kuaf'' @ [195, 182] @ asc ''r'', asc ''berber'',
        asc ''g'' @ [195, 188] @ asc ''zellik'', asc ''spa'', asc ''masaj''])]"

fun first_category :: "(ExpenseCategory \<times> pystr list) list \<Rightarrow> pystr \<Rightarrow> ExpenseCategory" where
  "first_category [] text_lower = OTHER"
| "first_category ((cat, keywords) # rest) text_lower =
     (if list_ex (\<lambda>kw. py_in kw text_lower) keywords then cat
      else first_category rest text_lower)"

definition from_keywords :: "pystr \<Rightarrow> ExpenseCategory" where
  "from_keywords text = first_category keywords_map (lower text)"

text \<open>
  The generation backend is a collaborator. A call either raises the
  \<^verbatim>\<open>RuntimeError\<close> of \<^verbatim>\<open>LLMService.generate\<close> or returns a text.
\<close>

datatype 'a generated = Unreachable | Generated 'a

text \<open>
  \<^verbatim>\<open>ClassifierAgent._categorize\<close>; \<open>reply\<close> is the backend's answer to the
  categorisation prompt, read only when no keyword matches.
\<close>

definition categorize :: "pystr generated \<Rightarrow> pystr \<Rightarrow> py_error + ExpenseCategory" where
  "categorize reply descr =
     (let cat = from_keywords descr in
      if cat \<noteq> OTHER then Inr cat
      else
        case reply of
          Unreachable \<Rightarrow> Inl RuntimeError
        | Generated response \<Rightarrow>
            (let category_str = strip (upper response) in
             case category_of_value category_str of
               Some c \<Rightarrow> Inr c
             | None \<Rightarrow> Inr OTHER))"

subsection \<open>The amount pattern\<close>

text \<open>
  The pattern is
  \<^verbatim>\<open>^(.+?)\s+(\d+(?:[.,]\d+)?)\s*(TL|<U+20BA>|tl)\s*$\<close>, matched with
  \<^verbatim>\<open>re.IGNORECASE\<close> from the start of the stripped text (U+20BA is the lira
  sign, code point 8378). Everything after the first group is \<open>tail_match\<close>: white space, digits, the optional separator with more
  digits, optional white space, the currency tag, optional white space, the end. White
  space, digits, the separators and the letters of the tag are disjoint sets of
  characters, so each greedy step has one way to succeed and no backtracking is left.
  The first group is lazy: \<open>lazy_prefix\<close> gives it one more character, never a line
  feed, until the tail matches.
\<close>

definition match_tag :: "pystr \<Rightarrow> pystr option" where
  "match_tag r =
     (case r of
        [] \<Rightarrow> None
      | a # r' \<Rightarrow>
          if a = 8378 then Some r'
          else
            (case r' of
               [] \<Rightarrow> None
             | b # r'' \<Rightarrow>
                 if (a = 84 \<or> a = 116) \<and> (b = 76 \<or> b = 108) then Some r'' else None))"

definition match_number :: "pystr \<Rightarrow> (pystr \<times> pystr) option" where
  "match_number r =
     (let whole = takeWhile is_digit r; r1 = dropWhile is_digit r in
      if whole = [] then None
      else
        case r1 of
          [] \<Rightarrow> Some (whole, r1)
        | c # r2 \<Rightarrow>
            if (c = 46 \<or> c = 44) \<and> takeWhile is_digit r2 \<noteq> [] then
              Some (whole @ c # takeWhile is_digit r2, dropWhile is_digit r2)
            else Some (whole, r1))"

definition tail_match :: "pystr \<Rightarrow> pystr option" where
  "tail_match r =
     (if takeWhile is_space r = [] then None
      else
        case match_number (dropWhile is_space r) of
          None \<Rightarrow> None
        | Some (number, r1) \<Rightarrow>
            (case match_tag (dropWhile is_space r1) of
               None \<Rightarrow> None
             | Some r2 \<Rightarrow> if dropWhile is_space r2 = [] then Some number else None))"

fun lazy_prefix :: "pystr \<Rightarrow> pystr \<Rightarrow> (pystr \<times> pystr) option" where
  "lazy_prefix group1 [] = None"
| "lazy_prefix group1 (c # r) =
     (if c = 10 then None
      else
        case tail_match r of
          Some number \<Rightarrow> Some (group1 @ [c], number)
        | None \<Rightarrow> lazy_prefix (group1 @ [c]) r)"

definition match_pattern :: "pystr \<Rightarrow> (pystr \<times> pystr) option" where
  "match_pattern s = lazy_prefix [] s"

text \<open>
  \<^verbatim>\<open>float(s)\<close> on a string, for plain decimal notation: optional white space around,
  an optional sign, digits with an optional point. \<open>None\<close> is the
  \<^verbatim>\<open>ValueError\<close>. The exponent notation, \<^verbatim>\<open>inf\<close>, \<^verbatim>\<open>nan\<close> and underscores
  between digits, which \<^verbatim>\<open>float\<close> reads too, are outside the model; the second group
  of the pattern never has them.
\<close>

definition digits_value :: "pystr \<Rightarrow> nat" where
  "digits_value ds = foldl (\<lambda>acc c. 10 * acc + (c - 48)) 0 ds"

definition unsigned_float :: "pystr \<Rightarrow> real option" where
  "unsigned_float u =
     (let whole = takeWhile is_digit u; r = dropWhile is_digit u in
      case r of
        [] \<Rightarrow> if whole = [] then None else Some (real (digits_value whole))
      | c # fraction \<Rightarrow>
          if c = 46 \<and> list_all is_digit fraction \<and> (whole \<noteq> [] \<or> fraction \<noteq> []) then
            Some (real (digits_value whole) + real (digits_value fraction) / 10 ^ length fraction)
          else None)"

definition py_float :: "pystr \<Rightarrow> real option" where
  "py_float s =
     (case strip s of
        [] \<Rightarrow> None
      | c # u \<Rightarrow>
          if c = 43 then unsigned_float u
          else if c = 45 then map_option uminus (unsigned_float u)
          else unsigned_float (c # u))"

text \<open>\<^verbatim>\<open>s.replace(',', '.')\<close>.\<close>

definition replace_comma :: "pystr \<Rightarrow> pystr" where
  "replace_comma s = map (\<lambda>c. if c = 44 then 46 else c) s"

subsection \<open>Parsing with the backend as fallback\<close>

text \<open>
  A decoded JSON value. The backend's reply to the parsing prompt is taken as
  \<^verbatim>\<open>json.loads\<close> reads it: \<open>None\<close> when it raises \<^verbatim>\<open>JSONDecodeError\<close>, the
  decoded value otherwise. \<open>subscript\<close> is \<^verbatim>\<open>data[key]\<close> with a string key and
  \<open>to_float\<close> is \<^verbatim>\<open>float(v)\<close>, each with the exception Python raises for the type
  of its argument.
\<close>

datatype json =
  JNull | JBool bool | JNumber real | JString pystr | JArray "json list"
  | JObject "(pystr \<times> json) list"

definition subscript :: "json \<Rightarrow> pystr \<Rightarrow> py_error + json" where
  "subscript data key =
     (case data of
        JObject members \<Rightarrow>
          (case dict_get members key of None \<Rightarrow> Inl KeyError | Some v \<Rightarrow> Inr v)
      | _ \<Rightarrow> Inl TypeError)"

definition to_float :: "json \<Rightarrow> py_error + real" where
  "to_float v =
     (case v of
        JNumber x \<Rightarrow> Inr x
      | JBool b \<Rightarrow> Inr (if b then 1 else 0)
      | JString s \<Rightarrow>
          (case py_float s of
             None \<Rightarrow> Inl (ValueError ''could not convert string to float'')
           | Some x \<Rightarrow> Inr x)
      | _ \<Rightarrow> Inl TypeError)"

text \<open>
  The handler \<^verbatim>\<open>except (json.JSONDecodeError, KeyError, ValueError)\<close>;
  \<^verbatim>\<open>JSONDecodeError\<close> is a \<^verbatim>\<open>ValueError\<close>.
\<close>

fun handled :: "py_error \<Rightarrow> bool" where
  "handled (ValueError m) = True"
| "handled KeyError = True"
| "handled e = False"

definition read_reply :: "json \<Rightarrow> py_error + (json \<times> real)" where
  "read_reply data =
     (case subscript data (asc ''description'') of
        Inl e \<Rightarrow> Inl e
      | Inr d \<Rightarrow>
          (case subscript data (asc ''amount'') of
             Inl e \<Rightarrow> Inl e
           | Inr a \<Rightarrow> (case to_float a of Inl e \<Rightarrow> Inl e | Inr x \<Rightarrow> Inr (d, x))))"

text \<open>
  \<^verbatim>\<open>ClassifierAgent._parse\<close>. The description it returns is a string on the pattern's
  path and whatever JSON value the backend put under \<^verbatim>\<open>description\<close> on the other.
\<close>

definition parse :: "json option generated \<Rightarrow> pystr \<Rightarrow> py_error + (json \<times> real)" where
  "parse reply text =
     (let fallback =
            (case reply of
               Unreachable \<Rightarrow> Inl RuntimeError
             | Generated None \<Rightarrow> Inr (JString text, 0)
             | Generated (Some data) \<Rightarrow>
                 (case read_reply data of
                    Inl e \<Rightarrow> if handled e then Inr (JString text, 0) else Inl e
                  | Inr result \<Rightarrow> Inr result))
      in
      case match_pattern (strip text) of
        None \<Rightarrow> fallback
      | Some (group1, group2) \<Rightarrow>
          (case py_float (replace_comma group2) of
             Some amt \<Rightarrow> Inr (JString (strip group1), amt)
           | None \<Rightarrow> fallback))"

text \<open>
  \<^verbatim>\<open>ClassifierAgent._classify_single\<close> and \<^verbatim>\<open>ClassifierAgent.execute\<close>. The
  backend is a pair of functions, its reply to the parsing prompt of a text and its reply
  to the categorisation prompt of a description. \<^verbatim>\<open>from_keywords\<close> calls
  \<^verbatim>\<open>.lower()\<close> on the description, an \<^verbatim>\<open>AttributeError\<close> when it is not a string.
  The loop of \<^verbatim>\<open>execute\<close> drops every text whose classification raises.
\<close>

record backend =
  parse_reply :: "pystr \<Rightarrow> json option generated"
  category_reply :: "pystr \<Rightarrow> pystr generated"

definition classify_single :: "backend \<Rightarrow> pystr \<Rightarrow> py_error + Expense" where
  "classify_single llm text =
     (case parse (parse_reply llm text) text of
        Inl e \<Rightarrow> Inl e
      | Inr (d, amt) \<Rightarrow>
          (case d of
             JString descr \<Rightarrow>
               (case categorize (category_reply llm descr) descr of
                  Inl e \<Rightarrow> Inl e
                | Inr cat \<Rightarrow>
                    Inr \<lparr>description = descr, amount = amt, category = cat, metadata = []\<rparr>)
           | _ \<Rightarrow> Inl AttributeError))"

fun classifier_execute :: "backend \<Rightarrow> pystr list \<Rightarrow> Expense list" where
  "classifier_execute llm [] = []"
| "classifier_execute llm (text # rest) =
     (case classify_single llm text of
        Inl e \<Rightarrow> classifier_execute llm rest
      | Inr expense \<Rightarrow> expense # classifier_execute llm rest)"


text \<open>
  The well-formed shape of the specification, part by part: the currency tag is the lira
  sign or the letters T and L in either case; the number is a run of digits, with an
  optional separator (point or comma) followed by more digits; its value reads the
  separator as the decimal point.
\<close>

definition is_tag :: "pystr \<Rightarrow> bool" where
  "is_tag t =
     (case t of
        [a] \<Rightarrow> a = 8378
      | [a, b] \<Rightarrow> (a = 84 \<or> a = 116) \<and> (b = 76 \<or> b = 108)
      | _ \<Rightarrow> False)"

definition number_shape :: "pystr \<Rightarrow> pystr \<Rightarrow> bool" where
  "number_shape whole fraction =
     (whole \<noteq> [] \<and> list_all is_digit whole \<and>
      (case fraction of
         [] \<Rightarrow> True
       | sep # ds \<Rightarrow> (sep = 46 \<or> sep = 44) \<and> ds \<noteq> [] \<and> list_all is_digit ds))"

definition decimal_value :: "pystr \<Rightarrow> pystr \<Rightarrow> real" where
  "decimal_value whole fraction =
     real (digits_value whole) +
     (case fraction of [] \<Rightarrow> 0 | sep # ds \<Rightarrow> real (digits_value ds) / 10 ^ length ds)"

section \<open>The strategist and the orchestrator\<close>








text \<open>
  The collaborators and settings of one \<^verbatim>\<open>Orchestrator\<close>: the generation backend
  (for the classifier, and its advice for an analysis), the search tool, whether a
  searcher was built and its threshold, the analyst's flag and what its sandbox does,
  and whether the file system accepts the two writes.
\<close>

record services =
  llm :: backend
  advice :: "Analysis \<Rightarrow> (pystr \<times> pystr list) generated"
  search_tool :: "nat \<Rightarrow> pystr \<Rightarrow> search_outcome"
  has_searcher :: bool
  search_threshold :: real
  code_executor_enabled :: bool
  sandbox_behaviour :: sandbox
  storage_ok :: bool





section \<open>Budget status thresholds\<close>

text \<open>
  Claim C2. For every real percentage p, from_percentage p is UNKNOWN when p < 0, HEALTHY
  when 0 <= p < 80, WARNING when 80 <= p <= 100 and OVER_BUDGET when p > 100; in
  particular 0 and 79.999 give HEALTHY, 80 and 100 give WARNING, 100.001 gives
  OVER_BUDGET and -1 gives UNKNOWN.
\<close>

theorem from_percentage_thresholds:
  "(p < 0 \<longrightarrow> from_percentage p = UNKNOWN) \<and>
   (0 \<le> p \<and> p < 80 \<longrightarrow> from_percentage p = HEALTHY) \<and>
   (80 \<le> p \<and> p \<le> 100 \<longrightarrow> from_percentage p = WARNING) \<and>
   (100 < p \<longrightarrow> from_percentage p = OVER_BUDGET) \<and>
   from_percentage 0 = HEALTHY \<and>
   from_percentage (79999 / 1000) = HEALTHY \<and>
   from_percentage 80 = WARNING \<and>
   from_percentage 100 = WARNING \<and>
   from_percentage (100001 / 1000) = OVER_BUDGET \<and>
   from_percentage (- 1) = UNKNOWN"
  by (simp add: from_percentage_def)

theorem from_percentage_thresholds_witness:
  "from_percentage (- 5) = UNKNOWN \<and> from_percentage 50 = HEALTHY \<and>
   from_percentage 85 = WARNING \<and> from_percentage 150 = OVER_BUDGET"
  using from_percentage_thresholds [of "- 5"] from_percentage_thresholds [of 50]
    from_percentage_thresholds [of 85] from_percentage_thresholds [of 150]
  by simp

section \<open>Sandboxed and in-process aggregation\<close>

lemma script_totals_fallback:
  "script_totals d (expense_data es) = fallback_totals d es"
  by (induction es arbitrary: d) (simp_all add: expense_data_def Let_def split: option.split)

lemma breakdown_is_fallback:
  "calculate_breakdown_with_code env expenses tot = fallback_totals [] expenses"
  by (auto simp: script_totals_fallback calculate_breakdown_with_code_def execute_script_def
      run_script_def Let_def split: sandbox.splits sum.splits exec_result.splits)

text \<open>
  Claim C1. For every list of expenses and every total, the aggregation loop of the
  sandboxed script and the in-process fallback loop build the same category-to-amount
  dictionary; whenever the sandbox succeeds its output is that dictionary; and the
  breakdown the analyst gets is that dictionary whatever the sandbox did (timeout,
  refusal, exception inside the script, or success).
\<close>

theorem breakdown_paths_agree:
  "script_totals [] (expense_data expenses) = fallback_totals [] expenses \<and>
   (\<forall>env out. execute_script env (expense_data expenses) tot = Success out
      \<longrightarrow> out = fallback_totals [] expenses) \<and>
   (\<forall>env. calculate_breakdown_with_code env expenses tot = fallback_totals [] expenses)"
  by (auto simp: script_totals_fallback calculate_breakdown_with_code_def execute_script_def
      run_script_def Let_def split: sandbox.splits sum.splits exec_result.splits)

theorem breakdown_paths_agree_witness:
  "execute_script Runs (expense_data sample_expenses) 8470
     = Success [(asc ''FOOD'', 350), (asc ''TRANSPORT'', 120), (asc ''SHOPPING'', 8000)] \<and>
   fallback_totals [] sample_expenses
     = [(asc ''FOOD'', 350), (asc ''TRANSPORT'', 120), (asc ''SHOPPING'', 8000)] \<and>
   calculate_breakdown_with_code TimesOut sample_expenses 8470
     = [(asc ''FOOD'', 350), (asc ''TRANSPORT'', 120), (asc ''SHOPPING'', 8000)]"
  using breakdown_paths_agree [of sample_expenses 8470]
  by (simp add: execute_script_def run_script_def expense_data_def sample_expenses_def
      asc_def)

section \<open>The analyst's metrics\<close>

lemma trend_loop_total:
  "tot \<noteq> 0 \<Longrightarrow> \<exists>ts. trend_loop bd tot = Inr ts"
  by (induction bd) (auto simp: Let_def split: option.split)

text \<open>
  Where the amounts do not sum to zero, the analyst returns the metrics of the
  specification: total = sum of amounts, daily rate = total / days, monthly projection =
  daily rate * 30; with an income other than zero, usage = monthly projection / income *
  100, status = from_percentage usage and remaining = max 0 (income - monthly
  projection); without one, status UNKNOWN and no usage or remaining. For expenses
  totalling 8470 over 7 days with income 15000: total 8470, daily rate 1210, monthly
  projection 36300, usage 242, status OVER_BUDGET, remaining 0.
\<close>

lemma analyst_execute_metrics:
  assumes "expenses \<noteq> []" and "1 \<le> days" and "sum_list (map amount expenses) \<noteq> 0"
  shows "\<exists>a. analyst_execute en env expenses days inc = Inr a \<and>
     total_expenses a = sum_list (map amount expenses) \<and>
     daily_rate a = total_expenses a / real_of_int days \<and>
     monthly_projection a = daily_rate a * 30 \<and>
     (\<forall>i. inc = Some i \<and> i \<noteq> 0 \<longrightarrow>
        usage_percentage a = Some (monthly_projection a / i * 100) \<and>
        budget_status a = from_percentage (monthly_projection a / i * 100) \<and>
        remaining_budget a = Some (max 0 (i - monthly_projection a))) \<and>
     (inc = None \<or> inc = Some 0 \<longrightarrow>
        budget_status a = UNKNOWN \<and> usage_percentage a = None \<and> remaining_budget a = None) \<and>
     (sum_list (map amount expenses) = 8470 \<and> days = 7 \<and> inc = Some 15000 \<longrightarrow>
        total_expenses a = 8470 \<and> daily_rate a = 1210 \<and> monthly_projection a = 36300 \<and>
        usage_percentage a = Some 242 \<and> budget_status a = OVER_BUDGET \<and>
        remaining_budget a = Some 0)"
proof -
  let ?tot = "sum_list (map amount expenses)"
  let ?bd = "if en then calculate_breakdown_with_code env expenses ?tot
             else fallback_totals [] expenses"
  from assms(3) obtain ts where ts: "trend_loop ?bd ?tot = Inr ts"
    using trend_loop_total by blast
  from assms(2) have d: "days \<noteq> 0" by simp
  show ?thesis
  proof (cases inc)
    case None
    with assms(1) d ts show ?thesis
      by (simp add: analyst_execute_def Let_def)
  next
    case (Some i)
    with assms(1) d ts show ?thesis
      by (auto simp: analyst_execute_def Let_def from_percentage_def max_def)
  qed
qed

lemma analyst_execute_metrics_sample:
  "sample_expenses \<noteq> [] \<and> (1::int) \<le> 7 \<and> sum_list (map amount sample_expenses) \<noteq> 0 \<and>
   (\<exists>a. analyst_execute True Runs sample_expenses 7 (Some 15000) = Inr a \<and>
     total_expenses a = 8470 \<and> daily_rate a = 1210 \<and> monthly_projection a = 36300 \<and>
     usage_percentage a = Some 242 \<and> budget_status a = OVER_BUDGET \<and>
     remaining_budget a = Some 0)"
proof -
  have 1: "sample_expenses \<noteq> []" by (simp add: sample_expenses_def)
  have 2: "(1::int) \<le> 7" by simp
  have 3: "sum_list (map amount sample_expenses) = 8470" by (simp add: sample_expenses_def)
  have 4: "sum_list (map amount sample_expenses) \<noteq> 0" using 3 by simp
  show ?thesis
    using analyst_execute_metrics [OF 1 2 4, of True Runs "Some 15000"] 1 3 by auto
qed

text \<open>
  Claim C3 at a batch of one expense with amount 0, the sentinel of an unparsed price:
  the list is not empty and the days are at least 1, but the total is 0, the trend loop
  divides the category's amount by it outside any \<^verbatim>\<open>try\<close>, and the analyst raises
  \<^verbatim>\<open>ZeroDivisionError\<close> instead of returning an analysis, with or without an
  income, with or without the code executor.
\<close>

theorem analyst_execute_zero_total:
  "unpriced_laptop = \<lparr>description = asc ''laptop'', amount = 0, category = OTHER,
                        metadata = []\<rparr> \<and>
   analyst_execute True Runs [unpriced_laptop] 1 None = Inl ZeroDivisionError \<and>
   analyst_execute True Refuses [unpriced_laptop] 7 (Some 15000) = Inl ZeroDivisionError \<and>
   analyst_execute False Refuses [unpriced_laptop] 7 (Some 15000) = Inl ZeroDivisionError"
  by (simp add: analyst_execute_def calculate_breakdown_with_code_def unpriced_laptop_def
      execute_script_def run_script_def expense_data_def asc_def)

section \<open>The strategist's action items\<close>

lemma insert_desc_insort: "insert_desc x ys = insort_key (\<lambda>p. - snd p) x ys"
  by (induction ys) simp_all

lemma sorted_desc_sort_key: "sorted_desc xs = sort_key (\<lambda>p. - snd p) xs"
  unfolding sorted_desc_def sort_key_def
  by (induction xs) (simp_all add: insert_desc_insort)

lemma top_categories_ranked:
  "top_categories a = take 2 (ranked_categories a)"
  by (simp add: top_categories_def ranked_categories_def sorted_desc_sort_key)

lemma ranked_nonempty:
  "category_breakdown a \<noteq> [] \<Longrightarrow> ranked_categories a \<noteq> []"
  by (metis length_sort list.size(3) length_0_conv ranked_categories_def)

lemma top_is_largest:
  assumes "p \<in> set (category_breakdown a)"
  shows "snd p \<le> snd (hd (top_categories a))"
proof -
  let ?r = "ranked_categories a"
  have s: "sorted (map (\<lambda>p. - snd p) ?r)" by (simp add: ranked_categories_def)
  have m: "p \<in> set ?r" using assms by (simp add: ranked_categories_def)
  obtain x xs where r: "?r = x # xs" using m by (cases ?r) auto
  have "snd p \<le> snd x" using s m unfolding r by auto
  then show ?thesis by (simp add: top_categories_ranked r)
qed

lemma monthly_reduction_baseline: "monthly_reduction a = monthly_projection a * (10 / 100)"
  by (simp add: monthly_reduction_def)

lemma status_actions_claimed:
  assumes "days_analyzed a \<noteq> 0" and "category_breakdown a \<noteq> []"
    and "budget_status a \<noteq> UNKNOWN" and "total_expenses a \<noteq> 0"
  shows "status_actions a = Inr (claimed_status_items a)"
proof -
  obtain x xs where r: "ranked_categories a = x # xs"
    using ranked_nonempty [OF assms(2)] by (cases "ranked_categories a") auto
  show ?thesis
  proof (cases xs)
    case Nil
    with r assms(1,3,4) show ?thesis
      by (cases "budget_status a")
        (simp_all add: status_actions_def claimed_status_items_def top_categories_ranked
          scaled_savings_def monthly_reduction_baseline Let_def)
  next
    case (Cons y ys)
    with r assms(1,3,4) show ?thesis
      by (cases "budget_status a")
        (simp_all add: status_actions_def claimed_status_items_def top_categories_ranked
          scaled_savings_def monthly_reduction_baseline Let_def)
  qed
qed

lemma status_actions_unknown:
  "budget_status a = UNKNOWN \<Longrightarrow>
   status_actions a = status_actions (a\<lparr>budget_status := OVER_BUDGET\<rparr>)"
  by (simp add: status_actions_def top_categories_def monthly_reduction_def Let_def
      split: list.split sum.split)


lemma extra_action_find:
  assumes "days_analyzed a \<noteq> 0"
    and "\<forall>(cat, amt) \<in> set bd.
           ((if total_expenses a > 0 then amt / total_expenses a * 100 else 0) > 40)
             = (amt > (40 / 100) * total_expenses a)"
  shows "extra_action a acts bd =
     Inr (acts @
       (case find (\<lambda>(cat, amt). amt > (40 / 100) * total_expenses a
                    \<and> list_all (\<lambda>item. \<not> py_in cat (item_description item)) acts) bd of
          None \<Rightarrow> []
        | Some (cat, amt) \<Rightarrow>
            [\<lparr>item_description = asc ''Create savings plan for '' @ cat @ asc '' category'',
               priority = MEDIUM,
               potential_savings = amt * (15 / 100) * 30 / real_of_int (days_analyzed a)\<rparr>]))"
  using assms(2)
proof (induction bd)
  case Nil
  then show ?case by simp
next
  case (Cons p bd)
  obtain cat amt where p: "p = (cat, amt)" by (cases p)
  have ex: "list_ex (\<lambda>a. py_in cat (item_description a)) acts
      = (\<not> list_all (\<lambda>item. \<not> py_in cat (item_description item)) acts)"
    by (simp add: list_ex_iff list_all_iff)
  from Cons.prems p have eq:
    "((if total_expenses a > 0 then amt / total_expenses a * 100 else 0) > 40)
       = (amt > (40 / 100) * total_expenses a)" by simp
  from Cons.prems have rest: "\<forall>(cat, amt) \<in> set bd.
           ((if total_expenses a > 0 then amt / total_expenses a * 100 else 0) > 40)
             = (amt > (40 / 100) * total_expenses a)" by simp
  show ?case
    using Cons.IH [OF rest] assms(1) eq
    by (simp add: p ex scaled_savings_def Let_def)
qed

lemma positive_total_share:
  "0 < total_expenses a \<Longrightarrow>
   ((if total_expenses a > 0 then amt / total_expenses a * 100 else 0) > 40)
     = (amt > (40 / 100) * total_expenses a)"
  by (simp add: field_simps)

text \<open>
  The breakdown the analyst builds has at least one category and its amounts sum to the
  total; every analysis the analyst returns for at least one day and amounts that are
  not negative satisfies the invariant.
\<close>

lemma dict_set_sum:
  "sum_list (map snd (dict_set d k ((case dict_get d k of None \<Rightarrow> 0 | Some v \<Rightarrow> v) + x)))
     = sum_list (map snd d) + (x::real)"
  by (induction d) auto

lemma dict_set_nonempty: "dict_set d k v \<noteq> []"
  by (cases d) (auto split: if_splits)

lemma fallback_totals_sum:
  "sum_list (map snd (fallback_totals d es)) = sum_list (map snd d) + sum_list (map amount es)"
  by (induction es arbitrary: d) (simp_all add: Let_def dict_set_sum)

lemma fallback_totals_nonempty:
  "d \<noteq> [] \<or> es \<noteq> [] \<Longrightarrow> fallback_totals d es \<noteq> []"
  by (induction es arbitrary: d) (simp_all add: Let_def dict_set_nonempty)

lemma trend_loop_zero: "bd \<noteq> [] \<Longrightarrow> trend_loop bd 0 = Inl ZeroDivisionError"
  by (cases bd) auto

lemma analyst_execute_invariant:
  assumes "analyst_execute en env expenses days inc = Inr a" and "1 \<le> days"
    and "list_all (\<lambda>e. 0 \<le> amount e) expenses"
  shows "analysis_invariant a \<and>
         total_expenses a = sum_list (map snd (category_breakdown a))"
proof -
  let ?tot = "sum_list (map amount expenses)"
  from assms(1) have ne: "expenses \<noteq> []"
    by (auto simp: analyst_execute_def split: if_splits)
  then have bd: "fallback_totals [] expenses \<noteq> []"
    by (simp add: fallback_totals_nonempty)
  from assms(1) ne have a: "days_analyzed a = days"
    "category_breakdown a = fallback_totals [] expenses"
    "total_expenses a = ?tot"
    by (auto simp: analyst_execute_def Let_def breakdown_is_fallback
        split: if_splits sum.splits prod.splits)
  from assms(1) ne obtain ts where "trend_loop (fallback_totals [] expenses) ?tot = Inr ts"
    by (auto simp: analyst_execute_def Let_def breakdown_is_fallback
        split: if_splits sum.splits prod.splits)
  then have "?tot \<noteq> 0" using trend_loop_zero [OF bd] by auto
  moreover have "0 \<le> ?tot"
    using assms(3) by (auto intro!: sum_list_nonneg simp: list_all_iff)
  ultimately have "0 < ?tot" by simp
  then show ?thesis
    unfolding analysis_invariant_def a
    using assms(2) bd fallback_totals_sum [of "[]" expenses] by simp
qed

text \<open>
  For a list of expenses that is not empty and a day count other than zero, the analyst
  fails if and only if the amounts sum to zero.
\<close>

lemma analyst_execute_fails_iff:
  assumes "expenses \<noteq> []" and "days \<noteq> 0"
  shows "(\<exists>e. analyst_execute en env expenses days inc = Inl e)
           \<longleftrightarrow> sum_list (map amount expenses) = 0"
proof
  assume "\<exists>e. analyst_execute en env expenses days inc = Inl e"
  then obtain e where e: "analyst_execute en env expenses days inc = Inl e" by blast
  show "sum_list (map amount expenses) = 0"
  proof (rule ccontr)
    assume nz: "sum_list (map amount expenses) \<noteq> 0"
    obtain ts where "trend_loop (fallback_totals [] expenses) (sum_list (map amount expenses))
        = Inr ts" using trend_loop_total [OF nz] by blast
    with e assms show False
      by (auto simp: analyst_execute_def Let_def breakdown_is_fallback
          split: if_splits sum.splits prod.splits option.splits)
  qed
next
  assume z: "sum_list (map amount expenses) = 0"
  have "fallback_totals [] expenses \<noteq> []"
    using assms(1) by (simp add: fallback_totals_nonempty)
  then have "trend_loop (fallback_totals [] expenses) 0 = Inl ZeroDivisionError"
    by (rule trend_loop_zero)
  then show "\<exists>e. analyst_execute en env expenses days inc = Inl e"
    using assms z
    by (auto simp: analyst_execute_def Let_def breakdown_is_fallback
        split: if_splits sum.splits prod.splits option.splits)
qed

text \<open>
  Claim C7. For every analysis (at least one day, at least one category, a total above
  zero), the action items are: the categories ranked by amount, larger first, the top
  two taken, the first of them a category of largest amount; by status, for HEALTHY two
  LOW items, the second saving twice 10 percent of the monthly projection; for WARNING a
  MEDIUM item for the first category saving its amount * 0.15 * 30 / days and a generic
  MEDIUM item saving 10 percent of the monthly projection; for OVER_BUDGET a HIGH item
  for the first category (30 percent), a HIGH item for the second one if there is one
  (20 percent) and an URGENT item saving twice the baseline; then, whatever the status,
  one more MEDIUM item for the first category, in the breakdown's order, that exceeds 40
  percent of the total and that no description so far mentions, saving its amount * 0.15
  * 30 / days, and nothing more if there is none.
\<close>

theorem generate_actions_table:
  assumes "analysis_invariant a"
  shows "top_categories a = take 2 (ranked_categories a) \<and>
         (\<forall>p \<in> set (category_breakdown a). snd p \<le> snd (hd (top_categories a))) \<and>
         (\<exists>base. status_actions a = Inr base \<and>
           (budget_status a \<noteq> UNKNOWN \<longrightarrow> base = claimed_status_items a) \<and>
           generate_actions a = Inr (base @ claimed_extra_items a base))"
proof -
  from assms have d: "days_analyzed a \<noteq> 0" and ne: "category_breakdown a \<noteq> []"
    and pos: "0 < total_expenses a"
    by (auto simp: analysis_invariant_def)
  have sh: "\<forall>(cat, amt) \<in> set (category_breakdown a).
           ((if total_expenses a > 0 then amt / total_expenses a * 100 else 0) > 40)
             = (amt > (40 / 100) * total_expenses a)"
    using positive_total_share [OF pos] by blast
  let ?a' = "a\<lparr>budget_status := OVER_BUDGET\<rparr>"
  have "\<exists>base. status_actions a = Inr base \<and>
           (budget_status a \<noteq> UNKNOWN \<longrightarrow> base = claimed_status_items a)"
  proof (cases "budget_status a = UNKNOWN")
    case True
    have "status_actions ?a' = Inr (claimed_status_items ?a')"
      using status_actions_claimed [of ?a'] d ne pos by simp
    with True show ?thesis by (simp add: status_actions_unknown)
  next
    case False
    then show ?thesis using status_actions_claimed [OF d ne] pos by simp
  qed
  then obtain base where b: "status_actions a = Inr base"
    "budget_status a \<noteq> UNKNOWN \<longrightarrow> base = claimed_status_items a" by blast
  have "generate_actions a = Inr (base @ claimed_extra_items a base)"
    using extra_action_find [OF d sh, of base] b(1)
    by (simp add: generate_actions_def claimed_extra_items_def)
  with b top_is_largest top_categories_ranked show ?thesis by blast
qed

theorem generate_actions_table_witness:
  "analysis_invariant warning_analysis \<and>
   generate_actions warning_analysis = Inr
     [\<lparr>item_description = asc ''Reduce FOOD spending by 15%'', priority = MEDIUM,
        potential_savings = 405 / 2\<rparr>,
      \<lparr>item_description = asc ''Cancel unnecessary subscriptions'', priority = MEDIUM,
        potential_savings = 300\<rparr>,
      \<lparr>item_description = asc ''Create savings plan for SHOPPING category'',
        priority = MEDIUM, potential_savings = 405 / 2\<rparr>]"
proof -
  have inv: "analysis_invariant warning_analysis"
    by (simp add: analysis_invariant_def warning_analysis_def)
  show ?thesis
    using generate_actions_table [OF inv] inv
    by (simp add: claimed_status_items_def claimed_extra_items_def ranked_categories_def
        warning_analysis_def asc_def)
qed



section \<open>Price research\<close>

lemma attach_results_fields:
  "description (attach_results r e) = description e \<and>
   amount (attach_results r e) = amount e \<and> category (attach_results r e) = category e"
  by (simp add: attach_results_def split: search_outcome.split)

lemma search_loop_length: "length (search_loop search th k es) = length es"
  by (induction es arbitrary: k) simp_all

lemma search_loop_nth:
  "i < length es \<Longrightarrow>
   search_loop search th k es ! i =
     (if searchable th (es ! i)
      then attach_results
             (search (k + length (filter (searchable th) (take i es))) (description (es ! i)))
             (es ! i)
      else es ! i)"
proof (induction es arbitrary: k i)
  case Nil
  then show ?case by simp
next
  case (Cons e es)
  show ?case
  proof (cases i)
    case 0
    then show ?thesis by simp
  next
    case (Suc j)
    with Cons.prems have "j < length es" by simp
    from Cons.IH [OF this] Suc show ?thesis by simp
  qed
qed

lemma search_loop_none:
  "filter (searchable th) es = [] \<Longrightarrow> search_loop search th k es = es"
  by (induction es arbitrary: k) (simp_all split: if_splits)

text \<open>
  Claim C8, as stated, where the search of a selected expense finds nothing: the
  expense has amount 150 with threshold 100, and comes back as it was, with no result
  list and no flag in its metadata.
\<close>

theorem searcher_execute_empty_results:
  "searchable 100 monitor \<and>
   searcher_execute (\<lambda>k product. SearchReturns []) 100 [monitor] = [monitor] \<and>
   dict_get (metadata monitor) (asc ''searched'') = None"
  by (simp add: searcher_execute_def searchable_def monitor_def attach_results_def)

text \<open>
  Claim C8, amended. The searcher returns as many expenses as it got, each with its
  description, amount and category unchanged. An expense is searched if and only if its
  amount is at least the threshold or equal to 0, the k-th such expense by the k-th
  search. When that search returns a list that is not empty, the expense's metadata gets
  the first 3 results (fewer if fewer were returned) under \<^verbatim>\<open>search_results\<close> and
  \<^verbatim>\<open>True\<close> under \<^verbatim>\<open>searched\<close>; when the search fails or returns nothing, and when
  the expense is not selected, the expense is unchanged. When no expense is selected
  the result is the input.
\<close>

theorem searcher_execute_enriches:
  "length (searcher_execute search th es) = length es \<and>
   (\<forall>i < length es.
      description (searcher_execute search th es ! i) = description (es ! i) \<and>
      amount (searcher_execute search th es ! i) = amount (es ! i) \<and>
      category (searcher_execute search th es ! i) = category (es ! i) \<and>
      (\<not> (amount (es ! i) \<ge> th \<or> amount (es ! i) = 0) \<longrightarrow>
         searcher_execute search th es ! i = es ! i) \<and>
      (amount (es ! i) \<ge> th \<or> amount (es ! i) = 0 \<longrightarrow>
         (case search (length (filter (\<lambda>e. amount e \<ge> th \<or> amount e = 0) (take i es)))
                 (description (es ! i)) of
            SearchFails \<Rightarrow> searcher_execute search th es ! i = es ! i
          | SearchReturns results \<Rightarrow>
              if results = [] then searcher_execute search th es ! i = es ! i
              else
                length (take 3 results) \<le> 3 \<and>
                searcher_execute search th es ! i =
                  (es ! i)\<lparr>metadata :=
                    dict_set
                      (dict_set (metadata (es ! i)) (asc ''search_results'')
                         (MetaResults (take 3 results)))
                      (asc ''searched'') (MetaBool True)\<rparr>))) \<and>
   ((\<forall>e \<in> set es. \<not> (amount e \<ge> th \<or> amount e = 0)) \<longrightarrow>
      searcher_execute search th es = es)"
proof -
  have sel: "(\<lambda>e. amount e \<ge> th \<or> amount e = 0) = searchable th"
    by (simp add: searchable_def fun_eq_iff)
  have ex: "searcher_execute search th es = search_loop search th 0 es"
    by (simp add: searcher_execute_def search_loop_none)
  have nth: "\<And>i. i < length es \<Longrightarrow> searcher_execute search th es ! i =
     (if searchable th (es ! i)
      then attach_results
             (search (length (filter (searchable th) (take i es))) (description (es ! i)))
             (es ! i)
      else es ! i)"
    using search_loop_nth [of _ es search th 0] by (simp add: ex)
  have none: "(\<forall>e \<in> set es. \<not> (amount e \<ge> th \<or> amount e = 0)) \<longrightarrow>
      searcher_execute search th es = es"
    by (simp add: searcher_execute_def filter_empty_conv searchable_def)
  have each: "\<forall>i < length es.
      description (searcher_execute search th es ! i) = description (es ! i) \<and>
      amount (searcher_execute search th es ! i) = amount (es ! i) \<and>
      category (searcher_execute search th es ! i) = category (es ! i) \<and>
      (\<not> (amount (es ! i) \<ge> th \<or> amount (es ! i) = 0) \<longrightarrow>
         searcher_execute search th es ! i = es ! i) \<and>
      (amount (es ! i) \<ge> th \<or> amount (es ! i) = 0 \<longrightarrow>
         (case search (length (filter (\<lambda>e. amount e \<ge> th \<or> amount e = 0) (take i es)))
                 (description (es ! i)) of
            SearchFails \<Rightarrow> searcher_execute search th es ! i = es ! i
          | SearchReturns results \<Rightarrow>
              if results = [] then searcher_execute search th es ! i = es ! i
              else
                length (take 3 results) \<le> 3 \<and>
                searcher_execute search th es ! i =
                  (es ! i)\<lparr>metadata :=
                    dict_set
                      (dict_set (metadata (es ! i)) (asc ''search_results'')
                         (MetaResults (take 3 results)))
                      (asc ''searched'') (MetaBool True)\<rparr>))"
  proof (intro allI impI)
    fix i assume i: "i < length es"
    show "description (searcher_execute search th es ! i) = description (es ! i) \<and>
      amount (searcher_execute search th es ! i) = amount (es ! i) \<and>
      category (searcher_execute search th es ! i) = category (es ! i) \<and>
      (\<not> (amount (es ! i) \<ge> th \<or> amount (es ! i) = 0) \<longrightarrow>
         searcher_execute search th es ! i = es ! i) \<and>
      (amount (es ! i) \<ge> th \<or> amount (es ! i) = 0 \<longrightarrow>
         (case search (length (filter (\<lambda>e. amount e \<ge> th \<or> amount e = 0) (take i es)))
                 (description (es ! i)) of
            SearchFails \<Rightarrow> searcher_execute search th es ! i = es ! i
          | SearchReturns results \<Rightarrow>
              if results = [] then searcher_execute search th es ! i = es ! i
              else
                length (take 3 results) \<le> 3 \<and>
                searcher_execute search th es ! i =
                  (es ! i)\<lparr>metadata :=
                    dict_set
                      (dict_set (metadata (es ! i)) (asc ''search_results'')
                         (MetaResults (take 3 results)))
                      (asc ''searched'') (MetaBool True)\<rparr>))"
      unfolding sel nth [OF i]
      by (simp add: attach_results_fields searchable_def attach_results_def
          split: search_outcome.split)
  qed
  show ?thesis
    using each none by (simp add: ex search_loop_length)
qed

theorem searcher_execute_enriches_witness:
  "length (searcher_execute (\<lambda>k product. SearchReturns [offer 1, offer 2, offer 3, offer 4])
             100 [kahve, monitor, unpriced_laptop]) = 3 \<and>
   searcher_execute (\<lambda>k product. SearchReturns [offer 1, offer 2, offer 3, offer 4]) 100
       [kahve, monitor, unpriced_laptop] ! 0 = kahve \<and>
   searcher_execute (\<lambda>k product. SearchReturns [offer 1, offer 2, offer 3, offer 4]) 100
       [kahve, monitor, unpriced_laptop] ! 1 =
     monitor\<lparr>metadata :=
       [(asc ''search_results'', MetaResults [offer 1, offer 2, offer 3]),
        (asc ''searched'', MetaBool True)]\<rparr> \<and>
   searcher_execute (\<lambda>k product. SearchFails) 100 [kahve, monitor, unpriced_laptop] ! 2
     = unpriced_laptop"
proof -
  let ?found = "\<lambda>(k::nat) (product::pystr). SearchReturns [offer 1, offer 2, offer 3, offer 4]"
  let ?fails = "\<lambda>(k::nat) (product::pystr). SearchFails"
  let ?es = "[kahve, monitor, unpriced_laptop]"
  note found = searcher_execute_enriches [of ?found 100 ?es]
  note each = found [THEN conjunct2, THEN conjunct1, rule_format]
  note failing = searcher_execute_enriches [of ?fails 100 ?es, THEN conjunct2, THEN conjunct1,
      rule_format]
  have 0: "length (searcher_execute ?found 100 ?es) = 3"
    using found by simp
  have 1: "searcher_execute ?found 100 ?es ! 0 = kahve"
    using each [of 0] by (simp add: kahve_def)
  have 2: "searcher_execute ?found 100 ?es ! 1 =
     monitor\<lparr>metadata :=
       [(asc ''search_results'', MetaResults [offer 1, offer 2, offer 3]),
        (asc ''searched'', MetaBool True)]\<rparr>"
    using each [of 1] by (simp add: kahve_def monitor_def asc_def)
  have 3: "searcher_execute ?fails 100 ?es ! 2 = unpriced_laptop"
    using failing [of 2] by (simp add: unpriced_laptop_def)
  show ?thesis using 0 1 2 3 by simp
qed

section \<open>Parsing an expense text\<close>

lemma is_tag_iff:
  "is_tag t \<longleftrightarrow>
     (t = [8378] \<or> (\<exists>a b. t = [a, b] \<and> (a = 84 \<or> a = 116) \<and> (b = 76 \<or> b = 108)))"
  by (auto simp: is_tag_def split: list.splits)

lemma number_shape_iff:
  "number_shape whole fraction \<longleftrightarrow>
     (whole \<noteq> [] \<and> list_all is_digit whole \<and>
      (fraction = [] \<or>
       (\<exists>sep ds. fraction = sep # ds \<and> (sep = 46 \<or> sep = 44) \<and> ds \<noteq> [] \<and>
          list_all is_digit ds)))"
  by (auto simp: number_shape_def split: list.splits)

lemma digit_not_space: "is_digit c \<Longrightarrow> \<not> is_space c"
  by (auto simp: is_digit_def is_space_def)

lemma takeWhile_run:
  "list_all P xs \<Longrightarrow> (ys = [] \<or> \<not> P (hd ys)) \<Longrightarrow> takeWhile P (xs @ ys) = xs"
  by (induction xs) (auto simp: takeWhile_eq_Nil_iff neq_Nil_conv)

lemma dropWhile_run:
  "list_all P xs \<Longrightarrow> (ys = [] \<or> \<not> P (hd ys)) \<Longrightarrow> dropWhile P (xs @ ys) = ys"
  by (induction xs) (auto simp: dropWhile_eq_self_iff neq_Nil_conv)

lemma tag_facts:
  assumes "is_tag t"
  shows "t \<noteq> []" "\<not> is_space (hd t)" "\<not> is_digit (hd t)" "hd t \<noteq> 46" "hd t \<noteq> 44"
    "\<not> is_space (last t)" "match_tag t = Some []"
  using assms by (auto simp: is_tag_iff is_space_def is_digit_def match_tag_def)


lemma not_digit_sep: "c = 46 \<or> c = 44 \<Longrightarrow> \<not> is_digit c"
  by (auto simp: is_digit_def)

lemma space_facts: "is_space c \<Longrightarrow> \<not> is_digit c \<and> c \<noteq> 46 \<and> c \<noteq> 44"
  by (auto simp: is_space_def is_digit_def)

lemma match_number_plain:
  assumes "whole \<noteq> []" "list_all is_digit whole" "\<not> is_digit c" "c \<noteq> 46" "c \<noteq> 44"
  shows "match_number (whole @ c # r) = Some (whole, c # r)"
proof -
  have t: "takeWhile is_digit (whole @ c # r) = whole"
    "dropWhile is_digit (whole @ c # r) = c # r"
    using assms(2,3) by (simp_all add: takeWhile_run dropWhile_run)
  show ?thesis unfolding match_number_def Let_def t using assms(1,4,5) by simp
qed

lemma match_number_fraction:
  assumes "whole \<noteq> []" "list_all is_digit whole" "sep = 46 \<or> sep = 44" "ds \<noteq> []"
    "list_all is_digit ds" "\<not> is_digit c"
  shows "match_number (whole @ sep # ds @ c # r) = Some (whole @ sep # ds, c # r)"
proof -
  have nd: "\<not> is_digit sep" using assms(3) by (rule not_digit_sep)
  have t: "takeWhile is_digit (whole @ sep # ds @ c # r) = whole"
    "dropWhile is_digit (whole @ sep # ds @ c # r) = sep # ds @ c # r"
    using assms(2) nd by (simp_all add: takeWhile_run dropWhile_run)
  have t2: "takeWhile is_digit (ds @ c # r) = ds" "dropWhile is_digit (ds @ c # r) = c # r"
    using assms(5,6) by (simp_all add: takeWhile_run dropWhile_run)
  show ?thesis unfolding match_number_def Let_def t using assms(1,3,4) by (simp add: t2)
qed


lemma tail_match_complete:
  assumes "ws \<noteq> []" "list_all is_space ws" "number_shape whole fraction"
    "list_all is_space ws2" "is_tag tag"
  shows "tail_match (ws @ whole @ fraction @ ws2 @ tag) = Some (whole @ fraction)"
proof -
  note tg = tag_facts [OF assms(5)]
  from assms(3) have w: "whole \<noteq> []" "list_all is_digit whole"
    by (auto simp: number_shape_iff)
  then obtain d ds where whole: "whole = d # ds" "is_digit d"
    by (cases whole) auto
  have hd1: "\<not> is_space (hd (whole @ fraction @ ws2 @ tag))"
    using whole by (simp add: digit_not_space)
  have s1: "takeWhile is_space (ws @ whole @ fraction @ ws2 @ tag) = ws"
    "dropWhile is_space (ws @ whole @ fraction @ ws2 @ tag) = whole @ fraction @ ws2 @ tag"
    using assms(2) hd1 by (simp_all add: takeWhile_run dropWhile_run)
  obtain c r where r: "ws2 @ tag = c # r" using tg(1) by (cases "ws2 @ tag") auto
  have c: "\<not> is_digit c \<and> c \<noteq> 46 \<and> c \<noteq> 44"
  proof (cases ws2)
    case Nil
    with r tg show ?thesis by (cases tag) auto
  next
    case (Cons x xs)
    with r assms(4) have "is_space c" by simp
    then show ?thesis by (rule space_facts)
  qed
  have n: "match_number (whole @ fraction @ ws2 @ tag) = Some (whole @ fraction, ws2 @ tag)"
  proof (cases fraction)
    case Nil
    then show ?thesis using match_number_plain [of whole c r] w c r by simp
  next
    case (Cons sep ds)
    with assms(3) have f: "sep = 46 \<or> sep = 44" "ds \<noteq> []" "list_all is_digit ds"
      by (auto simp: number_shape_iff)
    show ?thesis using match_number_fraction [OF w f, of c r] c r Cons by simp
  qed
  have s2: "dropWhile is_space (ws2 @ tag) = tag"
    using assms(4) tg(2) by (simp add: dropWhile_run)
  show ?thesis
    unfolding tail_match_def s1 n using s2 tg(7) assms(1) by simp
qed

lemma last_split_unique:
  assumes "xs @ a # u = ys @ b # v" and "P a" and "P b"
    and "\<forall>x \<in> set u. \<not> P x" and "\<forall>x \<in> set v. \<not> P x"
  shows "xs = ys \<and> a = b \<and> u = v"
proof -
  have "rev u @ a # rev xs = rev v @ b # rev ys"
    using arg_cong [OF assms(1), of rev] by simp
  moreover have "takeWhile (Not \<circ> P) (rev u @ a # rev xs) = rev u"
    "dropWhile (Not \<circ> P) (rev u @ a # rev xs) = a # rev xs"
    using assms(2,4) by (simp_all add: takeWhile_run dropWhile_run list_all_iff)
  moreover have "takeWhile (Not \<circ> P) (rev v @ b # rev ys) = rev v"
    "dropWhile (Not \<circ> P) (rev v @ b # rev ys) = b # rev ys"
    using assms(3,5) by (simp_all add: takeWhile_run dropWhile_run list_all_iff)
  ultimately have "rev u = rev v" "a # rev xs = b # rev ys" by simp_all
  then show ?thesis by simp
qed


lemma match_number_sound:
  assumes "match_number r = Some (n, r1)"
  shows "r = n @ r1 \<and> n \<noteq> [] \<and> (\<forall>c \<in> set n. \<not> is_space c)"
proof -
  let ?w = "takeWhile is_digit r"
  have w: "\<forall>c \<in> set ?w. \<not> is_space c"
    using digit_not_space by (auto dest: set_takeWhileD)
  have id: "r = ?w @ dropWhile is_digit r" by simp
  show ?thesis
  proof (cases "dropWhile is_digit r")
    case Nil
    with assms id w show ?thesis
      by (auto simp: match_number_def Let_def split: if_splits)
  next
    case (Cons c r2)
    let ?f = "takeWhile is_digit r2"
    have f: "\<forall>c \<in> set ?f. \<not> is_space c"
      using digit_not_space by (auto dest: set_takeWhileD)
    have id2: "r2 = ?f @ dropWhile is_digit r2" by simp
    have r: "r = ?w @ c # ?f @ dropWhile is_digit r2"
      using id Cons id2 by metis
    show ?thesis
    proof (cases "(c = 46 \<or> c = 44) \<and> ?f \<noteq> []")
      case True
      then have "\<not> is_space c" by (auto simp: is_space_def)
      moreover from assms Cons True
      have "n = ?w @ c # ?f" "r1 = dropWhile is_digit r2" "?w \<noteq> []"
        by (auto simp: match_number_def Let_def split: if_splits)
      ultimately show ?thesis using r w f by auto
    next
      case False
      with assms Cons have "n = ?w" "r1 = c # r2" "?w \<noteq> []"
        by (auto simp: match_number_def Let_def split: if_splits)
      then show ?thesis using id Cons w by auto
    qed
  qed
qed

lemma match_tag_sound:
  assumes "match_tag r = Some r2"
  shows "\<exists>tg. is_tag tg \<and> r = tg @ r2"
proof (cases r)
  case Nil
  with assms show ?thesis by (simp add: match_tag_def)
next
  case (Cons a r')
  show ?thesis
  proof (cases "a = 8378")
    case True
    with assms Cons have "r = [8378] @ r2" by (simp add: match_tag_def)
    then show ?thesis unfolding is_tag_iff by blast
  next
    case False
    with assms Cons obtain b where "r' = b # r2" "a = 84 \<or> a = 116" "b = 76 \<or> b = 108"
      by (cases r') (auto simp: match_tag_def split: if_splits)
    then have "r = [a, b] @ r2" "is_tag [a, b]" using Cons by (auto simp: is_tag_iff)
    then show ?thesis by blast
  qed
qed

lemma tail_match_sound:
  assumes "tail_match r = Some n"
  shows "\<exists>s1 s2 tg s3. r = s1 @ n @ s2 @ tg @ s3 \<and> s1 \<noteq> [] \<and> list_all is_space s1 \<and>
           n \<noteq> [] \<and> (\<forall>c \<in> set n. \<not> is_space c) \<and> list_all is_space s2 \<and> is_tag tg \<and>
           list_all is_space s3"
proof -
  let ?s1 = "takeWhile is_space r"
  from assms have s1: "?s1 \<noteq> []" by (auto simp: tail_match_def split: if_splits)
  from assms s1 obtain r1 where n: "match_number (dropWhile is_space r) = Some (n, r1)"
    by (auto simp: tail_match_def split: if_splits option.splits)
  from assms s1 n obtain r2 where t: "match_tag (dropWhile is_space r1) = Some r2"
    and e: "dropWhile is_space r2 = []"
    by (auto simp: tail_match_def split: if_splits option.splits)
  from match_tag_sound [OF t] obtain tg where tg: "is_tag tg" "dropWhile is_space r1 = tg @ r2"
    by blast
  note ns = match_number_sound [OF n]
  have a: "r = ?s1 @ dropWhile is_space r" by simp
  have b: "r1 = takeWhile is_space r1 @ dropWhile is_space r1" by simp
  have "r = ?s1 @ n @ takeWhile is_space r1 @ tg @ r2"
    using a ns b tg(2) by metis
  moreover have "list_all is_space ?s1" "list_all is_space (takeWhile is_space r1)"
    by (auto simp: list_all_iff dest: set_takeWhileD)
  moreover have "list_all is_space r2"
    using e by (simp add: list_all_iff)
  ultimately show ?thesis using s1 ns tg(1) by blast
qed

lemma tag_suffix_unique:
  assumes "is_tag t1" "is_tag t2" "A @ t1 = B @ t2"
  shows "A = B \<and> t1 = t2"
proof -
  have "rev t1 @ rev A = rev t2 @ rev B"
    using arg_cong [OF assms(3), of rev] by simp
  with assms(1,2) have "rev A = rev B \<and> t1 = t2"
    by (auto simp: is_tag_iff)
  then show ?thesis by simp
qed


lemma sep_not_space: "c = 46 \<or> c = 44 \<Longrightarrow> \<not> is_space c"
  by (auto simp: is_space_def)

lemma number_shape_chars:
  assumes "number_shape whole fraction"
  shows "whole @ fraction \<noteq> []" "\<forall>c \<in> set (whole @ fraction). \<not> is_space c"
proof -
  from assms show "whole @ fraction \<noteq> []" by (simp add: number_shape_iff)
  from assms have w: "\<forall>c \<in> set whole. \<not> is_space c"
    using digit_not_space by (auto simp: number_shape_iff list_all_iff)
  have "\<forall>c \<in> set fraction. \<not> is_space c"
  proof (cases fraction)
    case Nil
    then show ?thesis by simp
  next
    case (Cons sep ds)
    with assms have "sep = 46 \<or> sep = 44" "list_all is_digit ds"
      by (auto simp: number_shape_iff)
    then show ?thesis using Cons sep_not_space digit_not_space
      by (auto simp: list_all_iff)
  qed
  with w show "\<forall>c \<in> set (whole @ fraction). \<not> is_space c" by auto
qed

lemma tail_match_early:
  assumes "d \<noteq> []" "\<not> is_space (last d)"
    and "ws \<noteq> []" "list_all is_space ws" "number_shape whole fraction"
    "list_all is_space ws2" "is_tag tag"
  shows "tail_match (d @ ws @ whole @ fraction @ ws2 @ tag) = None"
proof (cases "tail_match (d @ ws @ whole @ fraction @ ws2 @ tag)")
  case None
  then show ?thesis .
next
  case (Some n)
  let ?num = "whole @ fraction"
  from tail_match_sound [OF Some] obtain s1 s2 tg s3 where
    r: "d @ ws @ whole @ fraction @ ws2 @ tag = s1 @ n @ s2 @ tg @ s3"
    and s1: "s1 \<noteq> []" "list_all is_space s1"
    and n: "n \<noteq> []" "\<forall>c \<in> set n. \<not> is_space c"
    and s2: "list_all is_space s2" and tg: "is_tag tg" and s3: "list_all is_space s3"
    by blast
  note tag = tag_facts [OF assms(7)]
  note num = number_shape_chars [OF assms(5)]
  have "s3 = []"
  proof (rule ccontr)
    assume ne: "s3 \<noteq> []"
    have "last (d @ ws @ whole @ fraction @ ws2 @ tag) = last tag" using tag(1) by simp
    moreover have "last (s1 @ n @ s2 @ tg @ s3) = last s3" using ne by simp
    moreover have "is_space (last s3)" using ne s3 by (simp add: list_all_iff)
    ultimately show False using r tag(6) by simp
  qed
  with r have "(s1 @ n @ s2) @ tg = (d @ ws @ ?num @ ws2) @ tag" by simp
  from tag_suffix_unique [OF tg assms(7) this]
  have e1: "s1 @ n @ s2 = d @ ws @ ?num @ ws2" by simp
  obtain n' a where na: "n = n' @ [a]" using n(1) by (metis rev_exhaust)
  obtain m' b where mb: "?num = m' @ [b]" using num(1) by (metis rev_exhaust)
  have "(s1 @ n') @ a # s2 = (d @ ws @ m') @ b # ws2"
    using e1 na mb by (metis append.assoc append_Cons append_Nil)
  moreover have "\<not> is_space a" "\<not> is_space b" using n(2) num(2) na mb by simp_all
  ultimately have "s1 @ n' = d @ ws @ m' \<and> a = b \<and> s2 = ws2"
    using last_split_unique [of "s1 @ n'" a s2 "d @ ws @ m'" b ws2 "Not \<circ> is_space"]
      s2 assms(6) by (simp add: list_all_iff)
  then have e2: "s1 @ n = d @ ws @ ?num" using na mb by (metis append.assoc)
  obtain s1' x where sx: "s1 = s1' @ [x]" using s1(1) by (metis rev_exhaust)
  obtain ws' y where wy: "ws = ws' @ [y]" using assms(3) by (metis rev_exhaust)
  have "s1' @ x # n = (d @ ws') @ y # ?num"
    using e2 sx wy by (metis append.assoc append_Cons append_Nil)
  moreover have "is_space x" "is_space y" using s1(2) assms(4) sx wy by simp_all
  ultimately have "s1' = d @ ws'"
    using last_split_unique [of s1' x n "d @ ws'" y ?num is_space] n(2) num(2) by simp
  then have "list_all is_space d" using s1(2) sx by simp
  then have "is_space (last d)" using assms(1) by (simp add: list_all_iff)
  with assms(2) show ?thesis by simp
qed

lemma lazy_prefix_description:
  assumes "ws \<noteq> []" "list_all is_space ws" "number_shape whole fraction"
    "list_all is_space ws2" "is_tag tag"
  shows "d \<noteq> [] \<Longrightarrow> \<not> is_space (last d) \<Longrightarrow> 10 \<notin> set d \<Longrightarrow>
     lazy_prefix acc (d @ ws @ whole @ fraction @ ws2 @ tag) = Some (acc @ d, whole @ fraction)"
proof (induction d arbitrary: acc)
  case Nil
  then show ?case by simp
next
  case (Cons c d)
  show ?case
  proof (cases "d = []")
    case True
    with Cons.prems tail_match_complete [OF assms] show ?thesis by simp
  next
    case False
    with Cons.prems have l: "\<not> is_space (last d)" "10 \<notin> set d" by simp_all
    have "tail_match (d @ ws @ whole @ fraction @ ws2 @ tag) = None"
      using tail_match_early [OF False l(1) assms] .
    with Cons.prems Cons.IH [OF False l, of "acc @ [c]"] show ?thesis by simp
  qed
qed


lemma strip_inner:
  assumes "list_all is_space pre" "list_all is_space post" "x \<noteq> []"
    "\<not> is_space (hd x)" "\<not> is_space (last x)"
  shows "strip (pre @ x @ post) = x"
proof -
  have 1: "dropWhile is_space (pre @ x @ post) = x @ post"
    using assms(1,3,4) by (simp add: dropWhile_run)
  have 2: "dropWhile is_space (rev post @ rev x) = rev x"
    using assms(2,3,5) by (simp add: dropWhile_run hd_rev)
  show ?thesis by (simp add: strip_def 1 2)
qed

lemma strip_trimmed:
  "x \<noteq> [] \<Longrightarrow> \<not> is_space (hd x) \<Longrightarrow> \<not> is_space (last x) \<Longrightarrow> strip x = x"
  using strip_inner [of "[]" "[]" x] by simp

lemma replace_comma_digits: "list_all is_digit ds \<Longrightarrow> replace_comma ds = ds"
  by (induction ds) (auto simp: replace_comma_def is_digit_def)

lemma py_float_number:
  assumes "number_shape whole fraction"
  shows "py_float (replace_comma (whole @ fraction)) = Some (decimal_value whole fraction)"
proof -
  from assms have w: "whole \<noteq> []" "list_all is_digit whole" by (auto simp: number_shape_iff)
  then obtain d ds where whole: "whole = d # ds" "is_digit d" by (cases whole) auto
  have d: "d \<noteq> 43" "d \<noteq> 45" "\<not> is_space d"
    using whole(2) by (auto simp: is_digit_def is_space_def)
  show ?thesis
  proof (cases fraction)
    case Nil
    have l: "\<not> is_space (last whole)" using w digit_not_space by (simp add: list_all_iff)
    have s: "strip whole = whole" using w(1) d(3) l whole(1) by (simp add: strip_trimmed)
    have t: "takeWhile is_digit whole = whole" "dropWhile is_digit whole = []"
      using w(2) by (simp_all add: list_all_iff)
    have "unsigned_float whole = Some (real (digits_value whole))"
      unfolding unsigned_float_def Let_def t using w(1) by simp
    then show ?thesis
      using Nil s d whole(1) w(2)
      by (simp add: py_float_def replace_comma_digits decimal_value_def)
  next
    case (Cons sep fd)
    with assms have f: "sep = 46 \<or> sep = 44" "fd \<noteq> []" "list_all is_digit fd"
      by (auto simp: number_shape_iff)
    let ?s = "whole @ 46 # fd"
    have r: "replace_comma (whole @ fraction) = ?s"
      using Cons f(1) replace_comma_digits [OF w(2)] replace_comma_digits [OF f(3)]
      by (auto simp: replace_comma_def)
    have l: "\<not> is_space (last ?s)" using f(2,3) digit_not_space by (simp add: list_all_iff)
    have s: "strip ?s = ?s"
      using strip_trimmed [of ?s] l d(3) whole(1) by simp
    have nd: "\<not> is_digit 46" by (simp add: is_digit_def)
    have t: "takeWhile is_digit ?s = whole" "dropWhile is_digit ?s = 46 # fd"
      using w(2) nd by (simp_all add: takeWhile_run dropWhile_run)
    have u: "unsigned_float ?s
        = Some (real (digits_value whole) + real (digits_value fd) / 10 ^ length fd)"
      unfolding unsigned_float_def Let_def t using f(2,3) by simp
    have "py_float ?s = unsigned_float ?s"
      unfolding py_float_def s using whole(1) d by simp
    then show ?thesis using r u Cons by (simp add: decimal_value_def)
  qed
qed

text \<open>
  Claim C4, as stated, on a text whose description has a line feed: the pattern's first
  group cannot cross it, the pattern does not match, and with a backend reply that is
  not JSON the whole text comes back with amount 0, not the description and 50.
\<close>

theorem parse_line_feed_in_description:
  "parse (Generated None) (asc ''a'' @ [10] @ asc ''b 50 TL'')
     = Inr (JString (asc ''a'' @ [10] @ asc ''b 50 TL''), 0) \<and>
   parse (Generated None) (asc ''a'' @ [10] @ asc ''b 50 TL'')
     \<noteq> Inr (JString (asc ''a'' @ [10] @ asc ''b''), 50)"
  by (simp add: parse_def asc_def strip_def is_space_def is_digit_def match_pattern_def
      tail_match_def match_number_def match_tag_def)

text \<open>
  Claim C4, amended. For every text made of optional white space, a description that is
  not blank and has no line feed, white space, a number (digits, optionally a point or a
  comma and more digits), optional white space, the currency tag (TL in either case of
  each letter, or the lira sign) and optional white space, parse returns the
  description, trimmed, and the value of the number with the separator read as the
  decimal point, whatever the backend would reply.
\<close>

theorem parse_well_formed:
  assumes "text = pre @ desc @ ws @ whole @ fraction @ ws2 @ tag @ post"
    and "list_all is_space pre" and "list_all is_space post"
    and "desc \<noteq> []" and "\<not> is_space (hd desc)" and "\<not> is_space (last desc)"
    and "10 \<notin> set desc"
    and "ws \<noteq> []" and "list_all is_space ws" and "list_all is_space ws2"
    and "number_shape whole fraction" and "is_tag tag"
  shows "parse reply text = Inr (JString desc, decimal_value whole fraction)"
proof -
  let ?x = "desc @ ws @ whole @ fraction @ ws2 @ tag"
  note tg = tag_facts [OF assms(12)]
  have x: "?x \<noteq> []" "\<not> is_space (hd ?x)" "\<not> is_space (last ?x)"
    using assms(4,5) tg(1,6) by simp_all
  have "strip text = ?x"
    using strip_inner [OF assms(2,3) x] assms(1) by simp
  moreover have "match_pattern ?x = Some (desc, whole @ fraction)"
    using lazy_prefix_description [OF assms(8,9,11,10,12) assms(4,6,7), of "[]"]
    by (simp add: match_pattern_def)
  moreover have "strip desc = desc" using assms(4,5,6) by (rule strip_trimmed)
  ultimately show ?thesis
    using py_float_number [OF assms(11)] by (simp add: parse_def)
qed

theorem parse_well_formed_witness:
  "parse Unreachable (asc ''kahve 50 TL'') = Inr (JString (asc ''kahve''), 50) \<and>
   parse Unreachable (asc ''market 300,50 TL'') = Inr (JString (asc ''market''), 601 / 2) \<and>
   parse Unreachable (asc ''  uber 120.5'' @ [8378, 32]) = Inr (JString (asc ''uber''), 241 / 2)"
proof -
  have 1: "parse Unreachable (asc ''kahve 50 TL'') = Inr (JString (asc ''kahve''), 50)"
    using parse_well_formed [of "asc ''kahve 50 TL''" "[]" "asc ''kahve''" "asc '' ''"
        "asc ''50''" "[]" "asc '' ''" "asc ''TL''" "[]" Unreachable]
    by (simp add: asc_def is_space_def is_digit_def number_shape_def is_tag_def
        decimal_value_def digits_value_def)
  have 2: "parse Unreachable (asc ''market 300,50 TL'')
      = Inr (JString (asc ''market''), 601 / 2)"
    using parse_well_formed [of "asc ''market 300,50 TL''" "[]" "asc ''market''" "asc '' ''"
        "asc ''300''" "asc '',50''" "asc '' ''" "asc ''TL''" "[]" Unreachable]
    by (simp add: asc_def is_space_def is_digit_def number_shape_def is_tag_def
        decimal_value_def digits_value_def)
  have 3: "parse Unreachable (asc ''  uber 120.5'' @ [8378, 32])
      = Inr (JString (asc ''uber''), 241 / 2)"
    using parse_well_formed [of "asc ''  uber 120.5'' @ [8378, 32]" "asc ''  ''"
        "asc ''uber''" "asc '' ''" "asc ''120''" "asc ''.5''" "[]" "[8378]" "[32]"
        Unreachable]
    by (simp add: asc_def is_space_def is_digit_def number_shape_def is_tag_def
        decimal_value_def digits_value_def)
  show ?thesis using 1 2 3 by simp
qed

text \<open>
  The fallback of parse. A reply that is not JSON, that lacks a key or whose amount is a
  string that is no number gives the text itself with amount 0.
\<close>

lemma parse_sentinel:
  assumes "match_pattern (strip text) = None"
  shows "parse (Generated None) text = Inr (JString text, 0)"
    and "dict_get members (asc ''description'') = None \<or>
         dict_get members (asc ''amount'') = None \<Longrightarrow>
         parse (Generated (Some (JObject members))) text = Inr (JString text, 0)"
    and "dict_get members (asc ''description'') = Some d \<Longrightarrow>
         dict_get members (asc ''amount'') = Some (JString s) \<Longrightarrow> py_float s = None \<Longrightarrow>
         parse (Generated (Some (JObject members))) text = Inr (JString text, 0)"
  using assms
  by (auto simp: parse_def read_reply_def subscript_def to_float_def split: option.splits)

text \<open>
  Claim C5 at a reply that is a JSON object with a null amount, and at a reply that is
  a JSON array: \<^verbatim>\<open>float(None)\<close> and \<^verbatim>\<open>data["description"]\<close> on a list raise
  \<^verbatim>\<open>TypeError\<close>, which the handler does not catch, so parse raises; the loop of
  the classifier then drops the text.
\<close>

theorem parse_raises_type_error:
  "parse (Generated (Some (JObject [(asc ''description'', JString (asc ''laptop'')),
                                     (asc ''amount'', JNull)]))) (asc ''laptop'')
     = Inl TypeError \<and>
   parse (Generated (Some (JArray []))) (asc ''laptop'') = Inl TypeError \<and>
   classifier_execute
     \<lparr>parse_reply = (\<lambda>text. Generated (Some (JObject
         [(asc ''description'', JString (asc ''laptop'')), (asc ''amount'', JNull)]))),
      category_reply = (\<lambda>d. Generated (asc ''SHOPPING''))\<rparr> [asc ''laptop''] = []"
  by (simp add: classify_single_def parse_def read_reply_def subscript_def to_float_def
      asc_def strip_def is_space_def is_digit_def match_pattern_def tail_match_def
      match_number_def match_tag_def)

section \<open>Categorising a description\<close>

lemma starts_with_iff: "starts_with t s \<longleftrightarrow> (\<exists>q. t = s @ q)"
  by (induction t s rule: starts_with.induct) auto

lemma py_in_iff: "py_in s t \<longleftrightarrow> (\<exists>p q. t = p @ s @ q)"
proof (induction t)
  case Nil
  then show ?case by auto
next
  case (Cons c t)
  show ?case
  proof
    assume "py_in s (c # t)"
    then show "\<exists>p q. c # t = p @ s @ q"
    proof (simp only: py_in.simps, elim disjE)
      assume "starts_with (c # t) s"
      then obtain q where "c # t = s @ q" using starts_with_iff by blast
      then have "c # t = [] @ s @ q" by simp
      then show ?thesis by blast
    next
      assume "py_in s t"
      then obtain p q where "t = p @ s @ q" using Cons.IH by blast
      then have "c # t = (c # p) @ s @ q" by simp
      then show ?thesis by blast
    qed
  next
    assume "\<exists>p q. c # t = p @ s @ q"
    then obtain p q where e: "c # t = p @ s @ q" by blast
    show "py_in s (c # t)"
    proof (cases p)
      case Nil
      with e have "starts_with (c # t) s" using starts_with_iff by auto
      then show ?thesis by simp
    next
      case (Cons x p')
      with e have "t = p' @ s @ q" by simp
      then have "py_in s t" using Cons.IH by blast
      then show ?thesis by simp
    qed
  qed
qed

lemma first_category_find:
  "first_category m t =
     (case find (\<lambda>(cat, keywords). \<exists>kw \<in> set keywords. py_in kw t) m of
        None \<Rightarrow> OTHER
      | Some (cat, keywords) \<Rightarrow> cat)"
  by (induction m t rule: first_category.induct) (simp_all add: list_ex_iff)

lemma categorize_keyword:
  "from_keywords d \<noteq> OTHER \<Longrightarrow> categorize reply d = Inr (from_keywords d)"
  by (simp add: categorize_def)

lemma categorize_backend:
  "from_keywords d = OTHER \<Longrightarrow>
   categorize (Generated response) d =
     Inr (case category_of_value (strip (upper response)) of None \<Rightarrow> OTHER | Some c \<Rightarrow> c)"
  by (simp add: categorize_def split: option.split)

text \<open>
  Claim C9 at the description "asus laptop": the UTILITIES keyword "su" occurs in
  "asus", UTILITIES is declared before SHOPPING, and the classifier returns UTILITIES
  without reading the backend's reply; "starbucks latte" is FOOD.
\<close>

theorem categorize_asus_laptop:
  "py_in (asc ''su'') (lower (asc ''asus laptop'')) \<and>
   from_keywords (asc ''asus laptop'') = UTILITIES \<and>
   categorize reply (asc ''asus laptop'') = Inr UTILITIES \<and>
   categorize reply (asc ''starbucks latte'') = Inr FOOD"
  by (simp add: categorize_def from_keywords_def keywords_map_def lower_def lower_cp_def
      asc_def)

text \<open>
  A keyword stored with a capital letter never matches, since only the text is
  lower-cased: the description that is the FOOD keyword of code points g, U+00C4, U+00B1,
  d, a has no keyword hit.
\<close>

lemma from_keywords_capital_keyword:
  "from_keywords (asc ''g'' @ [196, 177] @ asc ''da'') = OTHER"
  by (simp add: from_keywords_def keywords_map_def lower_def lower_cp_def asc_def)

section \<open>Empty input\<close>
















end
